theory Spec2Isabelle
  imports Main "HOL-Library.Word" "HOL-Library.Sublist"
begin

section \<open>Data model of the motor controller (motor\_controller.h)\<close>

text \<open>
  The firmware runs on a 32-bit target: \<open>unsigned long\<close> is a 32-bit word whose
  subtraction wraps. The clock \<open>millis()\<close> is an input of every entry point that reads it;
  one call of an entry point sees one clock value.
\<close>

type_synonym ulong = "32 word"

datatype Position = UNKNOWN | MIDDLE | CARD1 | CARD2

datatype Operation =
  IDLE | MOVING_TO_MIDDLE | MOVING_TO_CARD1 | MOVING_TO_CARD2
  | TAPPING_CARD1 | TAPPING_CARD2 | MANUAL_OPERATION

datatype State = STATE_IDLE | STATE_EXTENDING | STATE_RETRACTING

datatype TapState = TAP_IDLE | TAP_EXTENDING | TAP_PAUSE | TAP_RETRACTING | TAP_COMPLETE

text \<open>Calls made on the external status publisher (\<open>mqttHandler\<close>), in order.\<close>

datatype mqtt_call = publishStatus string | publishDetailedStatus

text \<open>
  The members of class \<open>MotorController\<close>, the two output pins, the function-local static
  \<open>moveStartTime\<close> of \<open>checkLimitSwitches\<close>, the lines written to \<open>Serial\<close> and the calls
  made on the status publisher.
\<close>

record MotorController =
  IN1_PIN :: bool
  IN2_PIN :: bool
  currentState :: State
  tapState :: TapState
  tapStartTime :: ulong
  tapTimeout :: ulong
  tapPauseDelay :: ulong
  timedOperation :: bool
  operationStartTime :: ulong
  operationDuration :: ulong
  timedOperationState :: State
  currentPosition :: Position
  previousPosition :: Position
  currentOperation :: Operation
  dualCardOperationStartTime :: ulong
  manualTimingStart :: ulong
  timingMeasurementActive :: bool
  is12VPower :: bool
  moveStartTime :: ulong
  serial :: "string list"
  mqtt :: "mqtt_call list"

text \<open>The default member initialisers of the header: the object before \<open>init()\<close>.\<close>

definition boot :: MotorController where
  "boot = \<lparr> IN1_PIN = False, IN2_PIN = False, currentState = STATE_IDLE,
      tapState = TAP_IDLE, tapStartTime = 0, tapTimeout = 2000, tapPauseDelay = 200,
      timedOperation = False, operationStartTime = 0, operationDuration = 0,
      timedOperationState = STATE_IDLE,
      currentPosition = UNKNOWN, previousPosition = UNKNOWN, currentOperation = IDLE,
      dualCardOperationStartTime = 0,
      manualTimingStart = 0, timingMeasurementActive = False,
      is12VPower = True, moveStartTime = 0, serial = [], mqtt = [] \<rparr>"

subsection \<open>Timing constants\<close>

definition CARD1_FROM_HOME_12V_MS :: ulong where "CARD1_FROM_HOME_12V_MS = 1100"
definition CARD1_TAP_PAUSE_12V_MS :: ulong where "CARD1_TAP_PAUSE_12V_MS = 1000"
definition CARD1_TO_HOME_12V_MS :: ulong where "CARD1_TO_HOME_12V_MS = 1100"
definition CARD2_FROM_HOME_12V_MS :: ulong where "CARD2_FROM_HOME_12V_MS = 1300"
definition CARD2_TAP_PAUSE_12V_MS :: ulong where "CARD2_TAP_PAUSE_12V_MS = 1000"
definition CARD2_TO_HOME_12V_MS :: ulong where "CARD2_TO_HOME_12V_MS = 1300"
definition HOME_FROM_EXTENDED_12V_MS :: ulong where "HOME_FROM_EXTENDED_12V_MS = 1306"
definition HOME_FROM_RETRACTED_12V_MS :: ulong where "HOME_FROM_RETRACTED_12V_MS = 1284"
definition EXTEND_FULL_12V_MS :: ulong where "EXTEND_FULL_12V_MS = 2568"
definition RETRACT_FULL_12V_MS :: ulong where "RETRACT_FULL_12V_MS = 2611"

definition CARD1_FROM_HOME_USB_MS :: ulong where "CARD1_FROM_HOME_USB_MS = 2530"
definition CARD1_TAP_PAUSE_USB_MS :: ulong where "CARD1_TAP_PAUSE_USB_MS = 1000"
definition CARD1_TO_HOME_USB_MS :: ulong where "CARD1_TO_HOME_USB_MS = 2530"
definition CARD2_FROM_HOME_USB_MS :: ulong where "CARD2_FROM_HOME_USB_MS = 2990"
definition CARD2_TAP_PAUSE_USB_MS :: ulong where "CARD2_TAP_PAUSE_USB_MS = 1000"
definition CARD2_TO_HOME_USB_MS :: ulong where "CARD2_TO_HOME_USB_MS = 2990"
definition HOME_FROM_EXTENDED_USB_MS :: ulong where "HOME_FROM_EXTENDED_USB_MS = 3004"
definition HOME_FROM_RETRACTED_USB_MS :: ulong where "HOME_FROM_RETRACTED_USB_MS = 2953"
definition EXTEND_FULL_USB_MS :: ulong where "EXTEND_FULL_USB_MS = 5906"
definition RETRACT_FULL_USB_MS :: ulong where "RETRACT_FULL_USB_MS = 6005"

text \<open>
  The ten named durations of a profile, and the two tables of the header side by side, one
  row per name.
\<close>

datatype duration_name =
  CARD1_FROM_HOME | CARD1_TAP_PAUSE | CARD1_TO_HOME
  | CARD2_FROM_HOME | CARD2_TAP_PAUSE | CARD2_TO_HOME
  | HOME_FROM_EXTENDED | HOME_FROM_RETRACTED | EXTEND_FULL | RETRACT_FULL

fun profile_12V :: "duration_name \<Rightarrow> ulong" where
  "profile_12V CARD1_FROM_HOME = CARD1_FROM_HOME_12V_MS"
| "profile_12V CARD1_TAP_PAUSE = CARD1_TAP_PAUSE_12V_MS"
| "profile_12V CARD1_TO_HOME = CARD1_TO_HOME_12V_MS"
| "profile_12V CARD2_FROM_HOME = CARD2_FROM_HOME_12V_MS"
| "profile_12V CARD2_TAP_PAUSE = CARD2_TAP_PAUSE_12V_MS"
| "profile_12V CARD2_TO_HOME = CARD2_TO_HOME_12V_MS"
| "profile_12V HOME_FROM_EXTENDED = HOME_FROM_EXTENDED_12V_MS"
| "profile_12V HOME_FROM_RETRACTED = HOME_FROM_RETRACTED_12V_MS"
| "profile_12V EXTEND_FULL = EXTEND_FULL_12V_MS"
| "profile_12V RETRACT_FULL = RETRACT_FULL_12V_MS"

fun profile_USB :: "duration_name \<Rightarrow> ulong" where
  "profile_USB CARD1_FROM_HOME = CARD1_FROM_HOME_USB_MS"
| "profile_USB CARD1_TAP_PAUSE = CARD1_TAP_PAUSE_USB_MS"
| "profile_USB CARD1_TO_HOME = CARD1_TO_HOME_USB_MS"
| "profile_USB CARD2_FROM_HOME = CARD2_FROM_HOME_USB_MS"
| "profile_USB CARD2_TAP_PAUSE = CARD2_TAP_PAUSE_USB_MS"
| "profile_USB CARD2_TO_HOME = CARD2_TO_HOME_USB_MS"
| "profile_USB HOME_FROM_EXTENDED = HOME_FROM_EXTENDED_USB_MS"
| "profile_USB HOME_FROM_RETRACTED = HOME_FROM_RETRACTED_USB_MS"
| "profile_USB EXTEND_FULL = EXTEND_FULL_USB_MS"
| "profile_USB RETRACT_FULL = RETRACT_FULL_USB_MS"

definition is_pause :: "duration_name \<Rightarrow> bool" where
  "is_pause d = (d = CARD1_TAP_PAUSE \<or> d = CARD2_TAP_PAUSE)"

subsection \<open>Timing helper functions\<close>

definition getCard1FromHomeMs :: "MotorController \<Rightarrow> ulong" where
  "getCard1FromHomeMs s = (if is12VPower s then CARD1_FROM_HOME_12V_MS else CARD1_FROM_HOME_USB_MS)"

definition getCard1TapPauseMs :: "MotorController \<Rightarrow> ulong" where
  "getCard1TapPauseMs s = (if is12VPower s then CARD1_TAP_PAUSE_12V_MS else CARD1_TAP_PAUSE_USB_MS)"

definition getCard1ToHomeMs :: "MotorController \<Rightarrow> ulong" where
  "getCard1ToHomeMs s = (if is12VPower s then CARD1_TO_HOME_12V_MS else CARD1_TO_HOME_USB_MS)"

definition getCard2FromHomeMs :: "MotorController \<Rightarrow> ulong" where
  "getCard2FromHomeMs s = (if is12VPower s then CARD2_FROM_HOME_12V_MS else CARD2_FROM_HOME_USB_MS)"

definition getCard2TapPauseMs :: "MotorController \<Rightarrow> ulong" where
  "getCard2TapPauseMs s = (if is12VPower s then CARD2_TAP_PAUSE_12V_MS else CARD2_TAP_PAUSE_USB_MS)"

definition getCard2ToHomeMs :: "MotorController \<Rightarrow> ulong" where
  "getCard2ToHomeMs s = (if is12VPower s then CARD2_TO_HOME_12V_MS else CARD2_TO_HOME_USB_MS)"

definition getHomeFromExtendedMs :: "MotorController \<Rightarrow> ulong" where
  "getHomeFromExtendedMs s =
     (if is12VPower s then HOME_FROM_EXTENDED_12V_MS else HOME_FROM_EXTENDED_USB_MS)"

definition getHomeFromRetractedMs :: "MotorController \<Rightarrow> ulong" where
  "getHomeFromRetractedMs s =
     (if is12VPower s then HOME_FROM_RETRACTED_12V_MS else HOME_FROM_RETRACTED_USB_MS)"

definition getExtendFullMs :: "MotorController \<Rightarrow> ulong" where
  "getExtendFullMs s = (if is12VPower s then EXTEND_FULL_12V_MS else EXTEND_FULL_USB_MS)"

definition getRetractFullMs :: "MotorController \<Rightarrow> ulong" where
  "getRetractFullMs s = (if is12VPower s then RETRACT_FULL_12V_MS else RETRACT_FULL_USB_MS)"


subsection \<open>Serial output and status publishing\<close>

text \<open>\<open>String(n)\<close> of an \<open>unsigned long\<close>: its decimal digits.\<close>

function decimal :: "nat \<Rightarrow> string" where
  "decimal n =
     (if n < 10 then [char_of (48 + n)] else decimal (n div 10) @ [char_of (48 + n mod 10)])"
  by pat_completeness auto
termination
  by (relation "measure id") auto

declare decimal.simps [simp del]

definition String_ul :: "ulong \<Rightarrow> string" where
  "String_ul n = decimal (unat n)"

definition println :: "string \<Rightarrow> MotorController \<Rightarrow> MotorController" where
  "println msg s = s\<lparr>serial := serial s @ [msg]\<rparr>"

definition mqtt_publishStatus :: "string \<Rightarrow> MotorController \<Rightarrow> MotorController" where
  "mqtt_publishStatus status s = s\<lparr>mqtt := mqtt s @ [publishStatus status]\<rparr>"

definition mqtt_publishDetailedStatus :: "MotorController \<Rightarrow> MotorController" where
  "mqtt_publishDetailedStatus s = s\<lparr>mqtt := mqtt s @ [publishDetailedStatus]\<rparr>"

subsection \<open>Status strings\<close>

definition getPowerSourceString :: "MotorController \<Rightarrow> string" where
  "getPowerSourceString s = (if is12VPower s then ''12V'' else ''USB'')"

definition getPositionString :: "MotorController \<Rightarrow> string" where
  "getPositionString s =
     (case currentPosition s of
        UNKNOWN \<Rightarrow> ''unknown'' | MIDDLE \<Rightarrow> ''middle'' | CARD1 \<Rightarrow> ''card1'' | CARD2 \<Rightarrow> ''card2'')"

definition getOperationString :: "MotorController \<Rightarrow> string" where
  "getOperationString s =
     (case currentOperation s of
        IDLE \<Rightarrow> ''idle''
      | MOVING_TO_MIDDLE \<Rightarrow> ''moving_to_middle''
      | MOVING_TO_CARD1 \<Rightarrow> ''moving_to_card1''
      | MOVING_TO_CARD2 \<Rightarrow> ''moving_to_card2''
      | TAPPING_CARD1 \<Rightarrow> ''tapping_card1''
      | TAPPING_CARD2 \<Rightarrow> ''tapping_card2''
      | MANUAL_OPERATION \<Rightarrow> ''manual_operation'')"

definition getState :: "MotorController \<Rightarrow> string" where
  "getState s =
     (if currentOperation s \<noteq> IDLE then getOperationString s
      else if timedOperation s then
        (case timedOperationState s of
           STATE_EXTENDING \<Rightarrow> ''timed_extending''
         | STATE_RETRACTING \<Rightarrow> ''timed_retracting''
         | STATE_IDLE \<Rightarrow> ''timed_operation'')
      else if tapState s \<noteq> TAP_IDLE then
        (case tapState s of
           TAP_EXTENDING \<Rightarrow> ''tap_extending''
         | TAP_PAUSE \<Rightarrow> ''tap_pausing''
         | TAP_RETRACTING \<Rightarrow> ''tap_retracting''
         | TAP_COMPLETE \<Rightarrow> ''tap_complete''
         | TAP_IDLE \<Rightarrow> ''tapping'')
      else
        (case currentState s of
           STATE_EXTENDING \<Rightarrow> ''extending''
         | STATE_RETRACTING \<Rightarrow> ''retracting''
         | STATE_IDLE \<Rightarrow> ''idle''))"

definition isTapping :: "MotorController \<Rightarrow> bool" where
  "isTapping s = (tapState s \<noteq> TAP_IDLE \<or> timedOperation s \<or> currentOperation s \<noteq> IDLE)"

definition getTimingInfo :: "ulong \<Rightarrow> MotorController \<Rightarrow> string" where
  "getTimingInfo now s =
     (if \<not> timingMeasurementActive s then ''No timing measurement active''
      else ''Manual timing: '' @ String_ul (now - manualTimingStart s)
             @ ''ms (active since manual start)'')"

subsection \<open>Basic motor controls\<close>

definition extend :: "MotorController \<Rightarrow> MotorController" where
  "extend s =
     (let s = s\<lparr>IN1_PIN := True\<rparr>;
          s = s\<lparr>IN2_PIN := False\<rparr>;
          s = s\<lparr>currentState := STATE_EXTENDING\<rparr>;
          s = println ''[Motor] Extending...'' s
      in mqtt_publishStatus ''extending'' s)"

definition retract :: "MotorController \<Rightarrow> MotorController" where
  "retract s =
     (let s = s\<lparr>IN1_PIN := False\<rparr>;
          s = s\<lparr>IN2_PIN := True\<rparr>;
          s = s\<lparr>currentState := STATE_RETRACTING\<rparr>;
          s = println ''[Motor] Retracting...'' s
      in mqtt_publishStatus ''retracting'' s)"

definition stop :: "MotorController \<Rightarrow> MotorController" where
  "stop s =
     (let s = s\<lparr>IN1_PIN := False\<rparr>;
          s = s\<lparr>IN2_PIN := False\<rparr>;
          s = s\<lparr>currentState := STATE_IDLE\<rparr>;
          s = println ''[Motor] Stopped'' s
      in mqtt_publishStatus ''idle'' s)"

definition init :: "MotorController \<Rightarrow> MotorController" where
  "init s =
     (let s = stop s;
          s = s\<lparr>currentPosition := UNKNOWN\<rparr>;
          s = s\<lparr>previousPosition := UNKNOWN\<rparr>;
          s = s\<lparr>currentOperation := IDLE\<rparr>;
          s = println ''[Motor] Enhanced dual card relay-mimicking controller initialized'' s;
          s = println ''  - Dual card support with position tracking'' s;
          s = println ''  - Timing-based positioning (no sensors)'' s;
          s = println ''  - Measured timing constants for accurate positioning'' s
      in println ''  - Power-aware timing (12V/USB modes)'' s)"

subsection \<open>Time-based operations\<close>

definition extendForTime :: "ulong \<Rightarrow> ulong \<Rightarrow> MotorController \<Rightarrow> MotorController" where
  "extendForTime duration_ms now s =
     (let s = println (''[Motor] Extend for '' @ String_ul duration_ms @ ''ms'') s;
          s = (if timedOperation s then (stop s)\<lparr>timedOperation := False\<rparr> else s);
          s = extend s;
          s = s\<lparr>operationStartTime := now\<rparr>;
          s = s\<lparr>operationDuration := duration_ms\<rparr>;
          s = s\<lparr>timedOperationState := STATE_EXTENDING\<rparr>
      in s\<lparr>timedOperation := True\<rparr>)"

definition retractForTime :: "ulong \<Rightarrow> ulong \<Rightarrow> MotorController \<Rightarrow> MotorController" where
  "retractForTime duration_ms now s =
     (let s = println (''[Motor] Retract for '' @ String_ul duration_ms @ ''ms'') s;
          s = (if timedOperation s then (stop s)\<lparr>timedOperation := False\<rparr> else s);
          s = retract s;
          s = s\<lparr>operationStartTime := now\<rparr>;
          s = s\<lparr>operationDuration := duration_ms\<rparr>;
          s = s\<lparr>timedOperationState := STATE_RETRACTING\<rparr>
      in s\<lparr>timedOperation := True\<rparr>)"

definition updateTimedOperations :: "ulong \<Rightarrow> MotorController \<Rightarrow> MotorController" where
  "updateTimedOperations now s =
     (if \<not> timedOperation s then s
      else
        let elapsed = now - operationStartTime s in
        if elapsed \<ge> operationDuration s then
          let s = println (''[Motor] Timed operation complete ('' @ String_ul elapsed @ ''ms)'') s;
              s = stop s;
              s = s\<lparr>timedOperation := False\<rparr>
          in (case timedOperationState s of
                STATE_EXTENDING \<Rightarrow> mqtt_publishStatus ''extend_complete'' s
              | STATE_RETRACTING \<Rightarrow> mqtt_publishStatus ''retract_complete'' s
              | STATE_IDLE \<Rightarrow> mqtt_publishStatus ''operation_complete'' s)
        else s)"

subsection \<open>Legacy tap\<close>

definition startTap :: "ulong \<Rightarrow> MotorController \<Rightarrow> MotorController" where
  "startTap now s =
     (let s = println ''[Motor] Starting legacy tap sequence'' s;
          s = extend s;
          s = s\<lparr>tapState := TAP_EXTENDING\<rparr>
      in s\<lparr>tapStartTime := now\<rparr>)"

definition updateTap :: "ulong \<Rightarrow> MotorController \<Rightarrow> MotorController" where
  "updateTap currentTime s =
     (case tapState s of
        TAP_IDLE \<Rightarrow> s
      | TAP_EXTENDING \<Rightarrow>
          if currentTime - tapStartTime s > tapTimeout s then
            let s = println ''[Motor] Legacy tap: Extend timeout, pausing'' s;
                s = stop s;
                s = s\<lparr>tapState := TAP_PAUSE\<rparr>
            in s\<lparr>tapStartTime := currentTime\<rparr>
          else s
      | TAP_PAUSE \<Rightarrow>
          if currentTime - tapStartTime s > tapPauseDelay s then
            let s = println ''[Motor] Legacy tap: Starting retract'' s;
                s = retract s;
                s = s\<lparr>tapState := TAP_RETRACTING\<rparr>
            in s\<lparr>tapStartTime := currentTime\<rparr>
          else s
      | TAP_RETRACTING \<Rightarrow>
          if currentTime - tapStartTime s > tapTimeout s then
            let s = println ''[Motor] Legacy tap: Retract timeout, stopping'' s;
                s = stop s
            in s\<lparr>tapState := TAP_COMPLETE\<rparr>
          else s
      | TAP_COMPLETE \<Rightarrow>
          let s = println ''[Motor] Legacy tap sequence completed'' s;
              s = s\<lparr>tapState := TAP_IDLE\<rparr>
          in mqtt_publishStatus ''idle'' s)"

definition tap :: "ulong \<Rightarrow> MotorController \<Rightarrow> MotorController" where
  "tap now s = startTap now s"

subsection \<open>Safety timeout\<close>

definition checkLimitSwitches :: "ulong \<Rightarrow> MotorController \<Rightarrow> MotorController" where
  "checkLimitSwitches now s =
     (if isTapping s then s\<lparr>moveStartTime := 0\<rparr>
      else if currentState s = STATE_EXTENDING \<or> currentState s = STATE_RETRACTING then
        (if moveStartTime s = 0 then s\<lparr>moveStartTime := now\<rparr>
         else if now - moveStartTime s > 5000 then
           let s = println ''[Motor] Safety timeout - AUTO STOP (uncontrolled movement)'' s;
               s = stop s
           in s\<lparr>moveStartTime := 0\<rparr>
         else s)
      else s\<lparr>moveStartTime := 0\<rparr>)"


subsection \<open>Internal dual card operations\<close>

definition startDualCardOperation ::
  "Operation \<Rightarrow> ulong \<Rightarrow> MotorController \<Rightarrow> MotorController" where
  "startDualCardOperation op now s =
     (let s = println (''[DualCard] Starting operation: '' @ getOperationString s @ '' at ''
                        @ String_ul now @ ''ms'') s;
          s = println (''[DualCard] From position: '' @ getPositionString s) s;
          s = s\<lparr>previousPosition := currentPosition s\<rparr>;
          s = s\<lparr>currentOperation := op\<rparr>
      in s\<lparr>dualCardOperationStartTime := now\<rparr>)"

definition completeDualCardOperation :: "ulong \<Rightarrow> MotorController \<Rightarrow> MotorController" where
  "completeDualCardOperation now s =
     (let operationDuration = now - dualCardOperationStartTime s;
          s = println (''[DualCard] Operation completed after '' @ String_ul operationDuration
                        @ ''ms'') s;
          s = println (''[DualCard] Final position: '' @ getPositionString s) s;
          s = stop s;
          s = s\<lparr>currentOperation := IDLE\<rparr>
      in mqtt_publishDetailedStatus s)"

definition isDualCardOperationTimedOut :: "ulong \<Rightarrow> ulong \<Rightarrow> MotorController \<Rightarrow> bool" where
  "isDualCardOperationTimedOut timeoutMs now s =
     (now - dualCardOperationStartTime s \<ge> timeoutMs)"

subsection \<open>Dual card functions\<close>

definition resetToMiddle :: "ulong \<Rightarrow> MotorController \<Rightarrow> MotorController" where
  "resetToMiddle now s =
     (if currentOperation s \<noteq> IDLE then
        println ''[DualCard] Cannot reset - operation in progress'' s
      else
        let s = println (''[DualCard] Resetting to middle position from: ''
                          @ getPositionString s) s in
        if currentPosition s = MIDDLE then
          println ''[DualCard] Already at middle position'' s
        else
          let s =
            (if currentPosition s = CARD1 then
               retract (println (''[DualCard] From Card 1: retracting ''
                                  @ String_ul (getCard1ToHomeMs s) @ ''ms to middle'') s)
             else if currentPosition s = CARD2 then
               extend (println (''[DualCard] From Card 2: extending ''
                                 @ String_ul (getCard2ToHomeMs s) @ ''ms to middle'') s)
             else
               retract (println ''[DualCard] Unknown position, doing full reset sequence'' s))
          in startDualCardOperation MOVING_TO_MIDDLE now s)"

text \<open>The arrow of the sequence messages, as its three UTF-8 bytes.\<close>

definition arrow :: string where
  "arrow = [char_of (0xE2::nat), char_of (0x86::nat), char_of (0x92::nat)]"

definition tapCard1 :: "ulong \<Rightarrow> MotorController \<Rightarrow> MotorController" where
  "tapCard1 now s =
     (if currentOperation s \<noteq> IDLE then
        println ''[DualCard] Cannot tap Card 1 - operation in progress'' s
      else
        let s = println ''[DualCard] Starting Card 1 tap - extend from middle'' s;
            s = println (''[DualCard] Sequence: extend '' @ String_ul (getCard1FromHomeMs s)
                          @ ''ms '' @ arrow @ '' pause '' @ String_ul (getCard1TapPauseMs s)
                          @ ''ms '' @ arrow @ '' retract '' @ String_ul (getCard1ToHomeMs s)
                          @ ''ms'') s;
            s = println (''[DualCard] Power mode: '' @ getPowerSourceString s) s
        in
        if currentPosition s \<noteq> MIDDLE then
          resetToMiddle now
            (println ''[DualCard] Must be at middle position first - resetting'' s)
        else
          let s = println ''[DualCard] Step 1: Extending to Card 1 position...'' s;
              s = extend s
          in startDualCardOperation MOVING_TO_CARD1 now s)"

definition tapCard2 :: "ulong \<Rightarrow> MotorController \<Rightarrow> MotorController" where
  "tapCard2 now s =
     (if currentOperation s \<noteq> IDLE then
        println ''[DualCard] Cannot tap Card 2 - operation in progress'' s
      else
        let s = println ''[DualCard] Starting Card 2 tap - retract from middle'' s;
            s = println (''[DualCard] Sequence: retract '' @ String_ul (getCard2FromHomeMs s)
                          @ ''ms '' @ arrow @ '' pause '' @ String_ul (getCard2TapPauseMs s)
                          @ ''ms '' @ arrow @ '' extend '' @ String_ul (getCard2ToHomeMs s)
                          @ ''ms'') s;
            s = println (''[DualCard] Power mode: '' @ getPowerSourceString s) s
        in
        if currentPosition s \<noteq> MIDDLE then
          resetToMiddle now
            (println ''[DualCard] Must be at middle position first - resetting'' s)
        else
          let s = println ''[DualCard] Step 1: Retracting to Card 2 position...'' s;
              s = retract s
          in startDualCardOperation MOVING_TO_CARD2 now s)"

text \<open>
  One call of \<open>updateDualCardOperations\<close>. The \<open>switch\<close> has no case for
  \<open>MANUAL_OPERATION\<close>: nothing happens there.
\<close>

definition updateDualCardOperations :: "ulong \<Rightarrow> MotorController \<Rightarrow> MotorController" where
  "updateDualCardOperations now s =
     (case currentOperation s of
        IDLE \<Rightarrow> s
      | MOVING_TO_MIDDLE \<Rightarrow>
          if previousPosition s = CARD1 then
            (if isDualCardOperationTimedOut (getCard1ToHomeMs s) now s then
               let s = s\<lparr>currentPosition := MIDDLE\<rparr>;
                   s = completeDualCardOperation now s
               in println ''[DualCard] Reached home from Card 1'' s
             else s)
          else if previousPosition s = CARD2 then
            (if isDualCardOperationTimedOut (getCard2ToHomeMs s) now s then
               let s = s\<lparr>currentPosition := MIDDLE\<rparr>;
                   s = completeDualCardOperation now s
               in println ''[DualCard] Reached home from Card 2'' s
             else s)
          else if previousPosition s = UNKNOWN then
            (if isDualCardOperationTimedOut (getRetractFullMs s) now s then
               let s = println
                     ''[DualCard] Step 1 complete - fully retracted, now extending to middle'' s;
                   s = extend s;
                   s = s\<lparr>previousPosition := CARD2\<rparr>
               in s\<lparr>dualCardOperationStartTime := now\<rparr>
             else s)
          else
            (if isDualCardOperationTimedOut (getHomeFromRetractedMs s) now s then
               let s = s\<lparr>currentPosition := MIDDLE\<rparr>;
                   s = completeDualCardOperation now s
               in println
                    ''[DualCard] Reached middle from unknown position (2-step process complete)'' s
             else s)
      | MOVING_TO_CARD1 \<Rightarrow>
          if isDualCardOperationTimedOut (getCard1FromHomeMs s) now s then
            let s = println ''[DualCard] Reached Card 1, starting tap pause'' s;
                s = s\<lparr>currentPosition := CARD1\<rparr>;
                s = stop s;
                s = s\<lparr>currentOperation := TAPPING_CARD1\<rparr>
            in s\<lparr>dualCardOperationStartTime := now\<rparr>
          else s
      | MOVING_TO_CARD2 \<Rightarrow>
          if isDualCardOperationTimedOut (getCard2FromHomeMs s) now s then
            let s = println ''[DualCard] Reached Card 2, starting tap pause'' s;
                s = s\<lparr>currentPosition := CARD2\<rparr>;
                s = stop s;
                s = s\<lparr>currentOperation := TAPPING_CARD2\<rparr>
            in s\<lparr>dualCardOperationStartTime := now\<rparr>
          else s
      | TAPPING_CARD1 \<Rightarrow>
          if isDualCardOperationTimedOut (getCard1TapPauseMs s) now s then
            let s = println (''[DualCard] Card 1 tap complete, retracting ''
                              @ String_ul (getCard1ToHomeMs s) @ ''ms to home'') s;
                s = retract s;
                s = s\<lparr>previousPosition := CARD1\<rparr>;
                s = s\<lparr>currentOperation := MOVING_TO_MIDDLE\<rparr>
            in s\<lparr>dualCardOperationStartTime := now\<rparr>
          else s
      | TAPPING_CARD2 \<Rightarrow>
          if isDualCardOperationTimedOut (getCard2TapPauseMs s) now s then
            let s = println (''[DualCard] Card 2 tap complete, extending ''
                              @ String_ul (getCard2ToHomeMs s) @ ''ms to home'') s;
                s = extend s;
                s = s\<lparr>previousPosition := CARD2\<rparr>;
                s = s\<lparr>currentOperation := MOVING_TO_MIDDLE\<rparr>
            in s\<lparr>dualCardOperationStartTime := now\<rparr>
          else s
      | MANUAL_OPERATION \<Rightarrow> s)"

subsection \<open>Calibration functions\<close>

definition startTimingMeasurement :: "ulong \<Rightarrow> MotorController \<Rightarrow> MotorController" where
  "startTimingMeasurement now s =
     (let s = s\<lparr>manualTimingStart := now\<rparr>;
          s = s\<lparr>timingMeasurementActive := True\<rparr>
      in println ''[Timing] Started measurement - use manual stop to capture duration'' s)"

definition manualExtend :: "ulong \<Rightarrow> MotorController \<Rightarrow> MotorController" where
  "manualExtend now s =
     (let s = (if currentOperation s \<noteq> IDLE then
                 completeDualCardOperation now
                   (println ''[Manual] Stopping current operation for manual control'' s)
               else s);
          s = println ''[Manual] Manual extend started'' s;
          s = startTimingMeasurement now s;
          s = extend s;
          s = s\<lparr>currentPosition := UNKNOWN\<rparr>
      in s\<lparr>currentOperation := MANUAL_OPERATION\<rparr>)"

definition manualRetract :: "ulong \<Rightarrow> MotorController \<Rightarrow> MotorController" where
  "manualRetract now s =
     (let s = (if currentOperation s \<noteq> IDLE then
                 completeDualCardOperation now
                   (println ''[Manual] Stopping current operation for manual control'' s)
               else s);
          s = println ''[Manual] Manual retract started'' s;
          s = startTimingMeasurement now s;
          s = retract s;
          s = s\<lparr>currentPosition := UNKNOWN\<rparr>
      in s\<lparr>currentOperation := MANUAL_OPERATION\<rparr>)"

definition manualStop :: "ulong \<Rightarrow> MotorController \<Rightarrow> MotorController" where
  "manualStop now s =
     (let s = (if currentOperation s \<noteq> IDLE then
                 completeDualCardOperation now (println ''[Manual] Stopping current operation'' s)
               else stop (println ''[Manual] Manual stop'' s));
          s = s\<lparr>currentOperation := IDLE\<rparr>
      in if timingMeasurementActive s then
           let elapsed = now - manualTimingStart s;
               s = println (''[Timing] CAPTURED: '' @ String_ul elapsed @ ''ms'') s;
               s = println ''[Timing] Use this value in your timing constants'' s
           in s\<lparr>timingMeasurementActive := False\<rparr>
         else s)"

definition captureCurrentAsMiddle :: "ulong \<Rightarrow> MotorController \<Rightarrow> MotorController" where
  "captureCurrentAsMiddle now s =
     (let s = (if currentOperation s \<noteq> IDLE then completeDualCardOperation now s else s);
          s = s\<lparr>currentPosition := MIDDLE\<rparr>;
          s = println ''[Calibration] Current position captured as MIDDLE'' s;
          s = println ''[Calibration] You can now use tap functions from this position'' s
      in mqtt_publishDetailedStatus s)"

subsection \<open>Power source management\<close>

definition setPowerSource12V :: "MotorController \<Rightarrow> MotorController" where
  "setPowerSource12V s =
     println ''[Power] Set to 12V external power - using fast measured timing''
       (s\<lparr>is12VPower := True\<rparr>)"

definition setPowerSourceUSB :: "MotorController \<Rightarrow> MotorController" where
  "setPowerSourceUSB s =
     println ''[Power] Set to USB power - using slow timing (2.3x multiplier)''
       (s\<lparr>is12VPower := False\<rparr>)"

section \<open>The polling loop\<close>

text \<open>
  The host calls \<open>updateDualCardOperations\<close> once per loop iteration. A run is the list of
  clock values read by the successive calls; \<open>run_updates\<close> gives the state after each call.
\<close>

fun run_updates :: "MotorController \<Rightarrow> ulong list \<Rightarrow> MotorController list" where
  "run_updates s [] = []"
| "run_updates s (t # ts) =
     (let s' = updateDualCardOperations t s in s' # run_updates s' ts)"

text \<open>The operations seen at the start and after each poll, a poll that changed nothing
  adding no entry.\<close>

definition operations_visited :: "MotorController \<Rightarrow> ulong list \<Rightarrow> Operation list" where
  "operations_visited s ts = remdups_adj (map currentOperation (s # run_updates s ts))"

definition final_state :: "MotorController \<Rightarrow> ulong list \<Rightarrow> MotorController" where
  "final_state s ts = last (s # run_updates s ts)"

text \<open>
  The polls of one phase that started at \<open>start\<close> and lasts \<open>timeoutMs\<close>: the polls
  \<open>early\<close> come before the phase has expired, the poll \<open>t\<close> at or after its expiry
  (elapsed time by wrapping subtraction, as the code computes it).
\<close>

definition phase_polls :: "ulong \<Rightarrow> ulong \<Rightarrow> ulong list \<Rightarrow> ulong \<Rightarrow> bool" where
  "phase_polls start timeoutMs early t =
     ((\<forall>x \<in> set early. x - start < timeoutMs) \<and> t - start \<ge> timeoutMs)"

text \<open>The states a Card 1 tap (a Card 2 tap) passes through, and the order of its operations.\<close>

definition card1_tap_state :: "MotorController \<Rightarrow> bool" where
  "card1_tap_state s =
     (currentOperation s = MOVING_TO_CARD1 \<or> currentOperation s = TAPPING_CARD1
      \<or> (currentOperation s = MOVING_TO_MIDDLE \<and> previousPosition s = CARD1)
      \<or> (currentOperation s = IDLE \<and> currentPosition s = MIDDLE))"

definition card1_successor :: "Operation \<Rightarrow> Operation" where
  "card1_successor op =
     (case op of MOVING_TO_CARD1 \<Rightarrow> TAPPING_CARD1 | TAPPING_CARD1 \<Rightarrow> MOVING_TO_MIDDLE
      | MOVING_TO_MIDDLE \<Rightarrow> IDLE | _ \<Rightarrow> op)"

definition card2_tap_state :: "MotorController \<Rightarrow> bool" where
  "card2_tap_state s =
     (currentOperation s = MOVING_TO_CARD2 \<or> currentOperation s = TAPPING_CARD2
      \<or> (currentOperation s = MOVING_TO_MIDDLE \<and> previousPosition s = CARD2)
      \<or> (currentOperation s = IDLE \<and> currentPosition s = MIDDLE))"

definition card2_successor :: "Operation \<Rightarrow> Operation" where
  "card2_successor op =
     (case op of MOVING_TO_CARD2 \<Rightarrow> TAPPING_CARD2 | TAPPING_CARD2 \<Rightarrow> MOVING_TO_MIDDLE
      | MOVING_TO_MIDDLE \<Rightarrow> IDLE | _ \<Rightarrow> op)"

text \<open>The host also calls \<open>checkLimitSwitches\<close> once per iteration; between the polls of a
  watchdog run nothing else touches the controller.\<close>

fun run_watchdog :: "MotorController \<Rightarrow> ulong list \<Rightarrow> MotorController" where
  "run_watchdog s [] = s"
| "run_watchdog s (t # ts) = run_watchdog (checkLimitSwitches t s) ts"

text \<open>
  A history of dual-card calls: the entry points \<open>tapCard1\<close>, \<open>tapCard2\<close>, \<open>resetToMiddle\<close>
  and the poll \<open>updateDualCardOperations\<close>, each with the clock value it reads, applied in
  order.
\<close>

datatype dual_card_call = TapCard1 | TapCard2 | ResetToMiddle | UpdateDualCardOperations

fun do_call :: "dual_card_call \<times> ulong \<Rightarrow> MotorController \<Rightarrow> MotorController" where
  "do_call (TapCard1, t) s = tapCard1 t s"
| "do_call (TapCard2, t) s = tapCard2 t s"
| "do_call (ResetToMiddle, t) s = resetToMiddle t s"
| "do_call (UpdateDualCardOperations, t) s = updateDualCardOperations t s"

fun run_calls :: "MotorController \<Rightarrow> (dual_card_call \<times> ulong) list \<Rightarrow> MotorController" where
  "run_calls s [] = s"
| "run_calls s (c # cs) = run_calls (do_call c s) cs"

section \<open>Unfolding rules and facts about the polling loop\<close>

lemmas timing_12V_defs =
  CARD1_FROM_HOME_12V_MS_def CARD1_TAP_PAUSE_12V_MS_def CARD1_TO_HOME_12V_MS_def
  CARD2_FROM_HOME_12V_MS_def CARD2_TAP_PAUSE_12V_MS_def CARD2_TO_HOME_12V_MS_def
  HOME_FROM_EXTENDED_12V_MS_def HOME_FROM_RETRACTED_12V_MS_def
  EXTEND_FULL_12V_MS_def RETRACT_FULL_12V_MS_def

lemmas timing_USB_defs =
  CARD1_FROM_HOME_USB_MS_def CARD1_TAP_PAUSE_USB_MS_def CARD1_TO_HOME_USB_MS_def
  CARD2_FROM_HOME_USB_MS_def CARD2_TAP_PAUSE_USB_MS_def CARD2_TO_HOME_USB_MS_def
  HOME_FROM_EXTENDED_USB_MS_def HOME_FROM_RETRACTED_USB_MS_def
  EXTEND_FULL_USB_MS_def RETRACT_FULL_USB_MS_def

lemmas getter_defs =
  getCard1FromHomeMs_def getCard1TapPauseMs_def getCard1ToHomeMs_def
  getCard2FromHomeMs_def getCard2TapPauseMs_def getCard2ToHomeMs_def
  getHomeFromExtendedMs_def getHomeFromRetractedMs_def getExtendFullMs_def getRetractFullMs_def

lemmas io_defs = println_def mqtt_publishStatus_def mqtt_publishDetailedStatus_def

lemmas drive_defs = extend_def retract_def stop_def

lemmas update_simps = updateDualCardOperations_def isDualCardOperationTimedOut_def io_defs
  drive_defs completeDualCardOperation_def Let_def

lemma run_updates_append:
  "run_updates s (a @ b) = run_updates s a @ run_updates (final_state s a) b"
  by (induction a arbitrary: s) (simp_all add: final_state_def Let_def)

lemma final_state_append: "final_state s (a @ b) = final_state (final_state s a) b"
  by (simp add: final_state_def run_updates_append)

lemma final_state_Cons:
  "final_state s (t # ts) = final_state (updateDualCardOperations t s) ts"
  by (simp add: final_state_def Let_def)

lemma final_state_Nil [simp]: "final_state s [] = s"
  by (simp add: final_state_def)

lemma operations_visited_Cons:
  "operations_visited s (t # ts) =
     (if currentOperation (updateDualCardOperations t s) = currentOperation s
      then operations_visited (updateDualCardOperations t s) ts
      else currentOperation s # operations_visited (updateDualCardOperations t s) ts)"
  by (simp add: operations_visited_def Let_def)

lemma operations_visited_Nil [simp]: "operations_visited s [] = [currentOperation s]"
  by (simp add: operations_visited_def)

lemma run_waiting:
  "\<forall>x \<in> set a. updateDualCardOperations x s = s \<Longrightarrow> final_state s a = s"
  by (induction a) (simp_all add: final_state_Cons)

lemma visited_waiting:
  "\<forall>x \<in> set a. updateDualCardOperations x s = s \<Longrightarrow>
   operations_visited s (a @ b) = operations_visited s b"
  by (induction a) (simp_all add: operations_visited_Cons)

text \<open>A phase: polls that change nothing, then the poll that moves to the next operation.\<close>

lemma phase_step:
  assumes w: "\<forall>x \<in> set a. updateDualCardOperations x s = s"
    and f: "currentOperation (updateDualCardOperations t s) \<noteq> currentOperation s"
  shows "operations_visited s (a @ t # rest)
           = currentOperation s # operations_visited (updateDualCardOperations t s) rest"
    and "final_state s (a @ t # rest) = final_state (updateDualCardOperations t s) rest"
  using w f
  by (simp_all add: visited_waiting operations_visited_Cons final_state_append run_waiting
      final_state_Cons)

lemma update_IDLE: "currentOperation s = IDLE \<Longrightarrow> updateDualCardOperations t s = s"
  by (simp add: updateDualCardOperations_def)

subsection \<open>Single polls of a Card 1 tap\<close>

lemma wait_M2C1:
  "currentOperation s = MOVING_TO_CARD1 \<Longrightarrow>
   x - dualCardOperationStartTime s < getCard1FromHomeMs s \<Longrightarrow>
   updateDualCardOperations x s = s"
  by (simp add: updateDualCardOperations_def isDualCardOperationTimedOut_def not_le [symmetric])

lemma fire_M2C1:
  assumes "currentOperation s = MOVING_TO_CARD1"
    and "x - dualCardOperationStartTime s \<ge> getCard1FromHomeMs s"
  shows "currentOperation (updateDualCardOperations x s) = TAPPING_CARD1"
    and "dualCardOperationStartTime (updateDualCardOperations x s) = x"
    and "is12VPower (updateDualCardOperations x s) = is12VPower s"
    and "currentPosition (updateDualCardOperations x s) = CARD1"
    and "currentState (updateDualCardOperations x s) = STATE_IDLE"
  using assms by (simp_all add: update_simps)

lemma wait_TC1:
  "currentOperation s = TAPPING_CARD1 \<Longrightarrow>
   x - dualCardOperationStartTime s < getCard1TapPauseMs s \<Longrightarrow>
   updateDualCardOperations x s = s"
  by (simp add: updateDualCardOperations_def isDualCardOperationTimedOut_def not_le [symmetric])

lemma fire_TC1:
  assumes "currentOperation s = TAPPING_CARD1"
    and "x - dualCardOperationStartTime s \<ge> getCard1TapPauseMs s"
  shows "currentOperation (updateDualCardOperations x s) = MOVING_TO_MIDDLE"
    and "dualCardOperationStartTime (updateDualCardOperations x s) = x"
    and "is12VPower (updateDualCardOperations x s) = is12VPower s"
    and "previousPosition (updateDualCardOperations x s) = CARD1"
    and "currentState (updateDualCardOperations x s) = STATE_RETRACTING"
  using assms by (simp_all add: update_simps)

lemma wait_M2M_from_CARD1:
  "currentOperation s = MOVING_TO_MIDDLE \<Longrightarrow> previousPosition s = CARD1 \<Longrightarrow>
   x - dualCardOperationStartTime s < getCard1ToHomeMs s \<Longrightarrow>
   updateDualCardOperations x s = s"
  by (simp add: updateDualCardOperations_def isDualCardOperationTimedOut_def not_le [symmetric])

lemma fire_M2M_from_CARD1:
  assumes "currentOperation s = MOVING_TO_MIDDLE" and "previousPosition s = CARD1"
    and "x - dualCardOperationStartTime s \<ge> getCard1ToHomeMs s"
  shows "currentOperation (updateDualCardOperations x s) = IDLE"
    and "currentPosition (updateDualCardOperations x s) = MIDDLE"
    and "currentState (updateDualCardOperations x s) = STATE_IDLE"
  using assms by (simp_all add: update_simps)

lemma tapCard1_starts:
  assumes "currentOperation s = IDLE" and "currentPosition s = MIDDLE"
  shows "currentOperation (tapCard1 t0 s) = MOVING_TO_CARD1"
    and "dualCardOperationStartTime (tapCard1 t0 s) = t0"
    and "is12VPower (tapCard1 t0 s) = is12VPower s"
    and "currentState (tapCard1 t0 s) = STATE_EXTENDING"
  using assms by (simp_all add: tapCard1_def startDualCardOperation_def io_defs drive_defs Let_def)

lemma card1_step:
  assumes "card1_tap_state s"
  shows "card1_tap_state (updateDualCardOperations t s)
       \<and> (currentOperation (updateDualCardOperations t s) = currentOperation s
          \<or> currentOperation (updateDualCardOperations t s) = card1_successor (currentOperation s))"
proof -
  let ?e = "t - dualCardOperationStartTime s"
  consider (a) "currentOperation s = MOVING_TO_CARD1"
    | (b) "currentOperation s = TAPPING_CARD1"
    | (c) "currentOperation s = MOVING_TO_MIDDLE" "previousPosition s = CARD1"
    | (d) "currentOperation s = IDLE" "currentPosition s = MIDDLE"
    using assms by (auto simp: card1_tap_state_def)
  then show ?thesis
  proof cases
    case a
    show ?thesis
    proof (cases "?e < getCard1FromHomeMs s")
      case True
      with a assms show ?thesis by (simp add: wait_M2C1)
    next
      case False
      then have "getCard1FromHomeMs s \<le> ?e" by simp
      from fire_M2C1 [OF a this] a show ?thesis
        by (simp add: card1_tap_state_def card1_successor_def)
    qed
  next
    case b
    show ?thesis
    proof (cases "?e < getCard1TapPauseMs s")
      case True
      with b assms show ?thesis by (simp add: wait_TC1)
    next
      case False
      then have "getCard1TapPauseMs s \<le> ?e" by simp
      from fire_TC1 [OF b this] b show ?thesis
        by (simp add: card1_tap_state_def card1_successor_def)
    qed
  next
    case c
    show ?thesis
    proof (cases "?e < getCard1ToHomeMs s")
      case True
      with c assms show ?thesis by (simp add: wait_M2M_from_CARD1)
    next
      case False
      then have "getCard1ToHomeMs s \<le> ?e" by simp
      from fire_M2M_from_CARD1 [OF c this] c show ?thesis
        by (simp add: card1_tap_state_def card1_successor_def)
    qed
  next
    case d
    with assms show ?thesis by (simp add: update_IDLE)
  qed
qed

lemma card1_final: "card1_tap_state s \<Longrightarrow> card1_tap_state (final_state s ts)"
  by (induction ts arbitrary: s) (simp_all add: final_state_Cons card1_step)

lemma card1_visited:
  assumes "card1_tap_state s"
  shows "prefix (operations_visited s ts)
           (dropWhile (\<lambda>op. op \<noteq> currentOperation s)
              [MOVING_TO_CARD1, TAPPING_CARD1, MOVING_TO_MIDDLE, IDLE])"
  using assms
proof (induction ts arbitrary: s)
  case Nil
  then show ?case by (auto simp: card1_tap_state_def)
next
  case (Cons t ts)
  let ?s' = "updateDualCardOperations t s"
  from card1_step [OF Cons.prems, of t]
  have st: "card1_tap_state ?s'"
    and mv: "currentOperation ?s' = currentOperation s
       \<or> currentOperation ?s' = card1_successor (currentOperation s)" by simp_all
  note ih = Cons.IH [OF st]
  from mv Cons.prems ih show ?case
    by (auto simp: operations_visited_Cons card1_tap_state_def card1_successor_def)
qed

lemma tap1_completes:
  assumes s: "currentPosition s = MIDDLE" "currentOperation s = IDLE"
    and p1: "phase_polls t0 (getCard1FromHomeMs s) a t1"
    and p2: "phase_polls t1 (getCard1TapPauseMs s) b t2"
    and p3: "phase_polls t2 (getCard1ToHomeMs s) c t3"
  shows "operations_visited (tapCard1 t0 s) (a @ t1 # b @ t2 # c @ [t3])
           = [MOVING_TO_CARD1, TAPPING_CARD1, MOVING_TO_MIDDLE, IDLE]"
    and "currentOperation (final_state (tapCard1 t0 s) (a @ t1 # b @ t2 # c @ [t3])) = IDLE"
    and "currentPosition (final_state (tapCard1 t0 s) (a @ t1 # b @ t2 # c @ [t3])) = MIDDLE"
proof -
  define s0 where "s0 = tapCard1 t0 s"
  define s1 where "s1 = updateDualCardOperations t1 s0"
  define s2 where "s2 = updateDualCardOperations t2 s1"
  define s3 where "s3 = updateDualCardOperations t3 s2"
  note st0 = tapCard1_starts [OF s(2) s(1), of t0, folded s0_def]
  have w0: "\<forall>x \<in> set a. updateDualCardOperations x s0 = s0"
    using p1 st0 by (auto simp: phase_polls_def getter_defs intro!: wait_M2C1)
  have f0: "getCard1FromHomeMs s0 \<le> t1 - dualCardOperationStartTime s0"
    using p1 st0 by (simp add: phase_polls_def getter_defs)
  note st1 = fire_M2C1 [OF st0(1) f0, folded s1_def]
  have pw1: "is12VPower s1 = is12VPower s" using st1 st0 by simp
  have w1: "\<forall>x \<in> set b. updateDualCardOperations x s1 = s1"
    using p2 st1 pw1 by (auto simp: phase_polls_def getter_defs intro!: wait_TC1)
  have f1: "getCard1TapPauseMs s1 \<le> t2 - dualCardOperationStartTime s1"
    using p2 st1 pw1 by (simp add: phase_polls_def getter_defs)
  note st2 = fire_TC1 [OF st1(1) f1, folded s2_def]
  have pw2: "is12VPower s2 = is12VPower s" using st2 pw1 by simp
  have w2: "\<forall>x \<in> set c. updateDualCardOperations x s2 = s2"
    using p3 st2 pw2 by (auto simp: phase_polls_def getter_defs intro!: wait_M2M_from_CARD1)
  have f2: "getCard1ToHomeMs s2 \<le> t3 - dualCardOperationStartTime s2"
    using p3 st2 pw2 by (simp add: phase_polls_def getter_defs)
  note st3 = fire_M2M_from_CARD1 [OF st2(1) st2(4) f2, folded s3_def]
  have n0: "currentOperation (updateDualCardOperations t1 s0) \<noteq> currentOperation s0"
    using st0 st1 by (simp add: s1_def)
  have n1: "currentOperation (updateDualCardOperations t2 s1) \<noteq> currentOperation s1"
    using st1 st2 by (simp add: s2_def)
  have n2: "currentOperation (updateDualCardOperations t3 s2) \<noteq> currentOperation s2"
    using st2 st3 by (simp add: s3_def)
  have "operations_visited s0 (a @ t1 # b @ t2 # c @ [t3])
          = currentOperation s0 # currentOperation s1 # currentOperation s2 # [currentOperation s3]"
    by (simp add: phase_step(1) [OF w0 n0] phase_step(1) [OF w1 n1, unfolded s1_def]
        phase_step(1) [OF w2 n2, unfolded s2_def s1_def] s1_def s2_def s3_def)
  then show "operations_visited (tapCard1 t0 s) (a @ t1 # b @ t2 # c @ [t3])
           = [MOVING_TO_CARD1, TAPPING_CARD1, MOVING_TO_MIDDLE, IDLE]"
    using st0 st1 st2 st3 by (simp add: s0_def)
  have "final_state s0 (a @ t1 # b @ t2 # c @ [t3]) = s3"
    by (simp add: phase_step(2) [OF w0 n0] phase_step(2) [OF w1 n1, unfolded s1_def]
        phase_step(2) [OF w2 n2, unfolded s2_def s1_def] s1_def s2_def s3_def)
  then show "currentOperation (final_state (tapCard1 t0 s) (a @ t1 # b @ t2 # c @ [t3])) = IDLE"
    and "currentPosition (final_state (tapCard1 t0 s) (a @ t1 # b @ t2 # c @ [t3])) = MIDDLE"
    using st3 by (simp_all add: s0_def)
qed

subsection \<open>Single polls of a Card 2 tap\<close>

lemma wait_M2C2:
  "currentOperation s = MOVING_TO_CARD2 \<Longrightarrow>
   x - dualCardOperationStartTime s < getCard2FromHomeMs s \<Longrightarrow>
   updateDualCardOperations x s = s"
  by (simp add: updateDualCardOperations_def isDualCardOperationTimedOut_def not_le [symmetric])

lemma fire_M2C2:
  assumes "currentOperation s = MOVING_TO_CARD2"
    and "x - dualCardOperationStartTime s \<ge> getCard2FromHomeMs s"
  shows "currentOperation (updateDualCardOperations x s) = TAPPING_CARD2"
    and "dualCardOperationStartTime (updateDualCardOperations x s) = x"
    and "is12VPower (updateDualCardOperations x s) = is12VPower s"
    and "currentPosition (updateDualCardOperations x s) = CARD2"
    and "currentState (updateDualCardOperations x s) = STATE_IDLE"
  using assms by (simp_all add: update_simps)

lemma wait_TC2:
  "currentOperation s = TAPPING_CARD2 \<Longrightarrow>
   x - dualCardOperationStartTime s < getCard2TapPauseMs s \<Longrightarrow>
   updateDualCardOperations x s = s"
  by (simp add: updateDualCardOperations_def isDualCardOperationTimedOut_def not_le [symmetric])

lemma fire_TC2:
  assumes "currentOperation s = TAPPING_CARD2"
    and "x - dualCardOperationStartTime s \<ge> getCard2TapPauseMs s"
  shows "currentOperation (updateDualCardOperations x s) = MOVING_TO_MIDDLE"
    and "dualCardOperationStartTime (updateDualCardOperations x s) = x"
    and "is12VPower (updateDualCardOperations x s) = is12VPower s"
    and "previousPosition (updateDualCardOperations x s) = CARD2"
    and "currentState (updateDualCardOperations x s) = STATE_EXTENDING"
  using assms by (simp_all add: update_simps)

lemma wait_M2M_from_CARD2:
  "currentOperation s = MOVING_TO_MIDDLE \<Longrightarrow> previousPosition s = CARD2 \<Longrightarrow>
   x - dualCardOperationStartTime s < getCard2ToHomeMs s \<Longrightarrow>
   updateDualCardOperations x s = s"
  by (simp add: updateDualCardOperations_def isDualCardOperationTimedOut_def not_le [symmetric])

lemma fire_M2M_from_CARD2:
  assumes "currentOperation s = MOVING_TO_MIDDLE" and "previousPosition s = CARD2"
    and "x - dualCardOperationStartTime s \<ge> getCard2ToHomeMs s"
  shows "currentOperation (updateDualCardOperations x s) = IDLE"
    and "currentPosition (updateDualCardOperations x s) = MIDDLE"
    and "currentState (updateDualCardOperations x s) = STATE_IDLE"
  using assms by (simp_all add: update_simps)

lemma tapCard2_starts:
  assumes "currentOperation s = IDLE" and "currentPosition s = MIDDLE"
  shows "currentOperation (tapCard2 t0 s) = MOVING_TO_CARD2"
    and "dualCardOperationStartTime (tapCard2 t0 s) = t0"
    and "is12VPower (tapCard2 t0 s) = is12VPower s"
    and "currentState (tapCard2 t0 s) = STATE_RETRACTING"
  using assms by (simp_all add: tapCard2_def startDualCardOperation_def io_defs drive_defs Let_def)

lemma card2_step:
  assumes "card2_tap_state s"
  shows "card2_tap_state (updateDualCardOperations t s)
       \<and> (currentOperation (updateDualCardOperations t s) = currentOperation s
          \<or> currentOperation (updateDualCardOperations t s) = card2_successor (currentOperation s))"
proof -
  let ?e = "t - dualCardOperationStartTime s"
  consider (a) "currentOperation s = MOVING_TO_CARD2"
    | (b) "currentOperation s = TAPPING_CARD2"
    | (c) "currentOperation s = MOVING_TO_MIDDLE" "previousPosition s = CARD2"
    | (d) "currentOperation s = IDLE" "currentPosition s = MIDDLE"
    using assms by (auto simp: card2_tap_state_def)
  then show ?thesis
  proof cases
    case a
    show ?thesis
    proof (cases "?e < getCard2FromHomeMs s")
      case True
      with a assms show ?thesis by (simp add: wait_M2C2)
    next
      case False
      then have "getCard2FromHomeMs s \<le> ?e" by simp
      from fire_M2C2 [OF a this] a show ?thesis
        by (simp add: card2_tap_state_def card2_successor_def)
    qed
  next
    case b
    show ?thesis
    proof (cases "?e < getCard2TapPauseMs s")
      case True
      with b assms show ?thesis by (simp add: wait_TC2)
    next
      case False
      then have "getCard2TapPauseMs s \<le> ?e" by simp
      from fire_TC2 [OF b this] b show ?thesis
        by (simp add: card2_tap_state_def card2_successor_def)
    qed
  next
    case c
    show ?thesis
    proof (cases "?e < getCard2ToHomeMs s")
      case True
      with c assms show ?thesis by (simp add: wait_M2M_from_CARD2)
    next
      case False
      then have "getCard2ToHomeMs s \<le> ?e" by simp
      from fire_M2M_from_CARD2 [OF c this] c show ?thesis
        by (simp add: card2_tap_state_def card2_successor_def)
    qed
  next
    case d
    with assms show ?thesis by (simp add: update_IDLE)
  qed
qed

lemma card2_final: "card2_tap_state s \<Longrightarrow> card2_tap_state (final_state s ts)"
  by (induction ts arbitrary: s) (simp_all add: final_state_Cons card2_step)

lemma card2_visited:
  assumes "card2_tap_state s"
  shows "prefix (operations_visited s ts)
           (dropWhile (\<lambda>op. op \<noteq> currentOperation s)
              [MOVING_TO_CARD2, TAPPING_CARD2, MOVING_TO_MIDDLE, IDLE])"
  using assms
proof (induction ts arbitrary: s)
  case Nil
  then show ?case by (auto simp: card2_tap_state_def)
next
  case (Cons t ts)
  let ?s' = "updateDualCardOperations t s"
  from card2_step [OF Cons.prems, of t]
  have st: "card2_tap_state ?s'"
    and mv: "currentOperation ?s' = currentOperation s
       \<or> currentOperation ?s' = card2_successor (currentOperation s)" by simp_all
  note ih = Cons.IH [OF st]
  from mv Cons.prems ih show ?case
    by (auto simp: operations_visited_Cons card2_tap_state_def card2_successor_def)
qed

lemma tap2_completes:
  assumes s: "currentPosition s = MIDDLE" "currentOperation s = IDLE"
    and p1: "phase_polls t0 (getCard2FromHomeMs s) a t1"
    and p2: "phase_polls t1 (getCard2TapPauseMs s) b t2"
    and p3: "phase_polls t2 (getCard2ToHomeMs s) c t3"
  shows "operations_visited (tapCard2 t0 s) (a @ t1 # b @ t2 # c @ [t3])
           = [MOVING_TO_CARD2, TAPPING_CARD2, MOVING_TO_MIDDLE, IDLE]"
    and "currentOperation (final_state (tapCard2 t0 s) (a @ t1 # b @ t2 # c @ [t3])) = IDLE"
    and "currentPosition (final_state (tapCard2 t0 s) (a @ t1 # b @ t2 # c @ [t3])) = MIDDLE"
proof -
  define s0 where "s0 = tapCard2 t0 s"
  define s1 where "s1 = updateDualCardOperations t1 s0"
  define s2 where "s2 = updateDualCardOperations t2 s1"
  define s3 where "s3 = updateDualCardOperations t3 s2"
  note st0 = tapCard2_starts [OF s(2) s(1), of t0, folded s0_def]
  have w0: "\<forall>x \<in> set a. updateDualCardOperations x s0 = s0"
    using p1 st0 by (auto simp: phase_polls_def getter_defs intro!: wait_M2C2)
  have f0: "getCard2FromHomeMs s0 \<le> t1 - dualCardOperationStartTime s0"
    using p1 st0 by (simp add: phase_polls_def getter_defs)
  note st1 = fire_M2C2 [OF st0(1) f0, folded s1_def]
  have pw1: "is12VPower s1 = is12VPower s" using st1 st0 by simp
  have w1: "\<forall>x \<in> set b. updateDualCardOperations x s1 = s1"
    using p2 st1 pw1 by (auto simp: phase_polls_def getter_defs intro!: wait_TC2)
  have f1: "getCard2TapPauseMs s1 \<le> t2 - dualCardOperationStartTime s1"
    using p2 st1 pw1 by (simp add: phase_polls_def getter_defs)
  note st2 = fire_TC2 [OF st1(1) f1, folded s2_def]
  have pw2: "is12VPower s2 = is12VPower s" using st2 pw1 by simp
  have w2: "\<forall>x \<in> set c. updateDualCardOperations x s2 = s2"
    using p3 st2 pw2 by (auto simp: phase_polls_def getter_defs intro!: wait_M2M_from_CARD2)
  have f2: "getCard2ToHomeMs s2 \<le> t3 - dualCardOperationStartTime s2"
    using p3 st2 pw2 by (simp add: phase_polls_def getter_defs)
  note st3 = fire_M2M_from_CARD2 [OF st2(1) st2(4) f2, folded s3_def]
  have n0: "currentOperation (updateDualCardOperations t1 s0) \<noteq> currentOperation s0"
    using st0 st1 by (simp add: s1_def)
  have n1: "currentOperation (updateDualCardOperations t2 s1) \<noteq> currentOperation s1"
    using st1 st2 by (simp add: s2_def)
  have n2: "currentOperation (updateDualCardOperations t3 s2) \<noteq> currentOperation s2"
    using st2 st3 by (simp add: s3_def)
  have "operations_visited s0 (a @ t1 # b @ t2 # c @ [t3])
          = currentOperation s0 # currentOperation s1 # currentOperation s2 # [currentOperation s3]"
    by (simp add: phase_step(1) [OF w0 n0] phase_step(1) [OF w1 n1, unfolded s1_def]
        phase_step(1) [OF w2 n2, unfolded s2_def s1_def] s1_def s2_def s3_def)
  then show "operations_visited (tapCard2 t0 s) (a @ t1 # b @ t2 # c @ [t3])
           = [MOVING_TO_CARD2, TAPPING_CARD2, MOVING_TO_MIDDLE, IDLE]"
    using st0 st1 st2 st3 by (simp add: s0_def)
  have "final_state s0 (a @ t1 # b @ t2 # c @ [t3]) = s3"
    by (simp add: phase_step(2) [OF w0 n0] phase_step(2) [OF w1 n1, unfolded s1_def]
        phase_step(2) [OF w2 n2, unfolded s2_def s1_def] s1_def s2_def s3_def)
  then show "currentOperation (final_state (tapCard2 t0 s) (a @ t1 # b @ t2 # c @ [t3])) = IDLE"
    and "currentPosition (final_state (tapCard2 t0 s) (a @ t1 # b @ t2 # c @ [t3])) = MIDDLE"
    using st3 by (simp_all add: s0_def)
qed

section \<open>Claims\<close>

subsection \<open>C2: the operations of a tap\<close>

text \<open>
  C2. Start with Position = Middle and Operation = Idle, call \<open>tapCard1\<close> at clock \<open>t0\<close>
  and then poll \<open>updateDualCardOperations\<close>. Whatever the clock values of the polls, the
  operations visited are an initial part of MovingToCard1, TappingCard1, MovingToMiddle,
  Idle, in that order, and whenever Idle has been reached Position is Middle. When the polls
  cover the three phases (in each phase some polls before its expiry, then one at or after
  it), the operations visited are exactly that sequence, and the run ends Idle at Middle.
  The same holds for \<open>tapCard2\<close> with the Card 2 operations and durations.
\<close>

theorem tap_visits_exact_sequence:
  assumes "currentPosition s = MIDDLE" and "currentOperation s = IDLE"
  shows
    "(\<forall>ts. operations_visited (tapCard1 t0 s) ts \<noteq> []
         \<and> prefix (operations_visited (tapCard1 t0 s) ts)
               [MOVING_TO_CARD1, TAPPING_CARD1, MOVING_TO_MIDDLE, IDLE]
         \<and> (currentOperation (final_state (tapCard1 t0 s) ts) = IDLE
              \<longrightarrow> currentPosition (final_state (tapCard1 t0 s) ts) = MIDDLE))
   \<and> (\<forall>a t1 b t2 c t3.
         phase_polls t0 (getCard1FromHomeMs s) a t1
         \<and> phase_polls t1 (getCard1TapPauseMs s) b t2
         \<and> phase_polls t2 (getCard1ToHomeMs s) c t3
         \<longrightarrow> operations_visited (tapCard1 t0 s) (a @ t1 # b @ t2 # c @ [t3])
               = [MOVING_TO_CARD1, TAPPING_CARD1, MOVING_TO_MIDDLE, IDLE]
           \<and> currentOperation (final_state (tapCard1 t0 s) (a @ t1 # b @ t2 # c @ [t3])) = IDLE
           \<and> currentPosition (final_state (tapCard1 t0 s) (a @ t1 # b @ t2 # c @ [t3])) = MIDDLE)
   \<and> (\<forall>ts. operations_visited (tapCard2 t0 s) ts \<noteq> []
         \<and> prefix (operations_visited (tapCard2 t0 s) ts)
               [MOVING_TO_CARD2, TAPPING_CARD2, MOVING_TO_MIDDLE, IDLE]
         \<and> (currentOperation (final_state (tapCard2 t0 s) ts) = IDLE
              \<longrightarrow> currentPosition (final_state (tapCard2 t0 s) ts) = MIDDLE))
   \<and> (\<forall>a t1 b t2 c t3.
         phase_polls t0 (getCard2FromHomeMs s) a t1
         \<and> phase_polls t1 (getCard2TapPauseMs s) b t2
         \<and> phase_polls t2 (getCard2ToHomeMs s) c t3
         \<longrightarrow> operations_visited (tapCard2 t0 s) (a @ t1 # b @ t2 # c @ [t3])
               = [MOVING_TO_CARD2, TAPPING_CARD2, MOVING_TO_MIDDLE, IDLE]
           \<and> currentOperation (final_state (tapCard2 t0 s) (a @ t1 # b @ t2 # c @ [t3])) = IDLE
           \<and> currentPosition (final_state (tapCard2 t0 s) (a @ t1 # b @ t2 # c @ [t3])) = MIDDLE)"
proof -
  have op1: "currentOperation (tapCard1 t0 s) = MOVING_TO_CARD1"
    by (rule tapCard1_starts(1) [OF assms(2) assms(1)])
  then have inv1: "card1_tap_state (tapCard1 t0 s)"
    by (simp add: card1_tap_state_def)
  have op2: "currentOperation (tapCard2 t0 s) = MOVING_TO_CARD2"
    by (rule tapCard2_starts(1) [OF assms(2) assms(1)])
  then have inv2: "card2_tap_state (tapCard2 t0 s)"
    by (simp add: card2_tap_state_def)
  have ne: "operations_visited x ts \<noteq> []" for x ts
    by (simp add: operations_visited_def)
  have A1: "prefix (operations_visited (tapCard1 t0 s) ts)
               [MOVING_TO_CARD1, TAPPING_CARD1, MOVING_TO_MIDDLE, IDLE]" for ts
    using card1_visited [OF inv1, of ts] op1 by simp
  have B1: "currentOperation (final_state (tapCard1 t0 s) ts) = IDLE
              \<longrightarrow> currentPosition (final_state (tapCard1 t0 s) ts) = MIDDLE" for ts
    using card1_final [OF inv1, of ts] by (auto simp: card1_tap_state_def)
  have A2: "prefix (operations_visited (tapCard2 t0 s) ts)
               [MOVING_TO_CARD2, TAPPING_CARD2, MOVING_TO_MIDDLE, IDLE]" for ts
    using card2_visited [OF inv2, of ts] op2 by simp
  have B2: "currentOperation (final_state (tapCard2 t0 s) ts) = IDLE
              \<longrightarrow> currentPosition (final_state (tapCard2 t0 s) ts) = MIDDLE" for ts
    using card2_final [OF inv2, of ts] by (auto simp: card2_tap_state_def)
  have C1: "operations_visited (tapCard1 t0 s) (a @ t1 # b @ t2 # c @ [t3])
               = [MOVING_TO_CARD1, TAPPING_CARD1, MOVING_TO_MIDDLE, IDLE]
           \<and> currentOperation (final_state (tapCard1 t0 s) (a @ t1 # b @ t2 # c @ [t3])) = IDLE
           \<and> currentPosition (final_state (tapCard1 t0 s) (a @ t1 # b @ t2 # c @ [t3])) = MIDDLE"
    if "phase_polls t0 (getCard1FromHomeMs s) a t1
         \<and> phase_polls t1 (getCard1TapPauseMs s) b t2
         \<and> phase_polls t2 (getCard1ToHomeMs s) c t3" for a t1 b t2 c t3
    using that tap1_completes [OF assms, of t0 a t1 b t2 c t3] by simp
  have C2: "operations_visited (tapCard2 t0 s) (a @ t1 # b @ t2 # c @ [t3])
               = [MOVING_TO_CARD2, TAPPING_CARD2, MOVING_TO_MIDDLE, IDLE]
           \<and> currentOperation (final_state (tapCard2 t0 s) (a @ t1 # b @ t2 # c @ [t3])) = IDLE
           \<and> currentPosition (final_state (tapCard2 t0 s) (a @ t1 # b @ t2 # c @ [t3])) = MIDDLE"
    if "phase_polls t0 (getCard2FromHomeMs s) a t1
         \<and> phase_polls t1 (getCard2TapPauseMs s) b t2
         \<and> phase_polls t2 (getCard2ToHomeMs s) c t3" for a t1 b t2 c t3
    using that tap2_completes [OF assms, of t0 a t1 b t2 c t3] by simp
  have P1: "\<forall>ts. operations_visited (tapCard1 t0 s) ts \<noteq> []
         \<and> prefix (operations_visited (tapCard1 t0 s) ts)
               [MOVING_TO_CARD1, TAPPING_CARD1, MOVING_TO_MIDDLE, IDLE]
         \<and> (currentOperation (final_state (tapCard1 t0 s) ts) = IDLE
              \<longrightarrow> currentPosition (final_state (tapCard1 t0 s) ts) = MIDDLE)"
    by (intro allI conjI ne A1 B1)
  have P3: "\<forall>ts. operations_visited (tapCard2 t0 s) ts \<noteq> []
         \<and> prefix (operations_visited (tapCard2 t0 s) ts)
               [MOVING_TO_CARD2, TAPPING_CARD2, MOVING_TO_MIDDLE, IDLE]
         \<and> (currentOperation (final_state (tapCard2 t0 s) ts) = IDLE
              \<longrightarrow> currentPosition (final_state (tapCard2 t0 s) ts) = MIDDLE)"
    by (intro allI conjI ne A2 B2)
  from C1 have P2: "\<forall>a t1 b t2 c t3.
         phase_polls t0 (getCard1FromHomeMs s) a t1
         \<and> phase_polls t1 (getCard1TapPauseMs s) b t2
         \<and> phase_polls t2 (getCard1ToHomeMs s) c t3
         \<longrightarrow> operations_visited (tapCard1 t0 s) (a @ t1 # b @ t2 # c @ [t3])
               = [MOVING_TO_CARD1, TAPPING_CARD1, MOVING_TO_MIDDLE, IDLE]
           \<and> currentOperation (final_state (tapCard1 t0 s) (a @ t1 # b @ t2 # c @ [t3])) = IDLE
           \<and> currentPosition (final_state (tapCard1 t0 s) (a @ t1 # b @ t2 # c @ [t3])) = MIDDLE"
    by (intro allI impI)
  from C2 have P4: "\<forall>a t1 b t2 c t3.
         phase_polls t0 (getCard2FromHomeMs s) a t1
         \<and> phase_polls t1 (getCard2TapPauseMs s) b t2
         \<and> phase_polls t2 (getCard2ToHomeMs s) c t3
         \<longrightarrow> operations_visited (tapCard2 t0 s) (a @ t1 # b @ t2 # c @ [t3])
               = [MOVING_TO_CARD2, TAPPING_CARD2, MOVING_TO_MIDDLE, IDLE]
           \<and> currentOperation (final_state (tapCard2 t0 s) (a @ t1 # b @ t2 # c @ [t3])) = IDLE
           \<and> currentPosition (final_state (tapCard2 t0 s) (a @ t1 # b @ t2 # c @ [t3])) = MIDDLE"
    by (intro allI impI)
  show ?thesis
    by (rule conjI [OF P1 conjI [OF P2 conjI [OF P3 P4]]])
qed

theorem tap_visits_exact_sequence_witness:
  "currentPosition (boot\<lparr>currentPosition := MIDDLE\<rparr>) = MIDDLE
   \<and> currentOperation (boot\<lparr>currentPosition := MIDDLE\<rparr>) = IDLE
   \<and> phase_polls 7 (getCard1FromHomeMs (boot\<lparr>currentPosition := MIDDLE\<rparr>)) [500] 1107
   \<and> phase_polls 1107 (getCard1TapPauseMs (boot\<lparr>currentPosition := MIDDLE\<rparr>)) [1500] 2107
   \<and> phase_polls 2107 (getCard1ToHomeMs (boot\<lparr>currentPosition := MIDDLE\<rparr>)) [3000] 3250
   \<and> operations_visited (tapCard1 7 (boot\<lparr>currentPosition := MIDDLE\<rparr>))
        ([500] @ 1107 # [1500] @ 2107 # [3000] @ [3250])
      = [MOVING_TO_CARD1, TAPPING_CARD1, MOVING_TO_MIDDLE, IDLE]
   \<and> currentPosition (final_state (tapCard1 7 (boot\<lparr>currentPosition := MIDDLE\<rparr>))
        ([500] @ 1107 # [1500] @ 2107 # [3000] @ [3250])) = MIDDLE
   \<and> prefix (operations_visited (tapCard2 7 (boot\<lparr>currentPosition := MIDDLE\<rparr>)) [100, 2000])
        [MOVING_TO_CARD2, TAPPING_CARD2, MOVING_TO_MIDDLE, IDLE]"
proof -
  let ?s = "boot\<lparr>currentPosition := MIDDLE\<rparr>"
  have h1: "currentPosition ?s = MIDDLE" by simp
  have h2: "currentOperation ?s = IDLE" by (simp add: boot_def)
  have p1: "phase_polls 7 (getCard1FromHomeMs ?s) [500] 1107"
    by (simp add: phase_polls_def getter_defs boot_def timing_12V_defs)
  have p2: "phase_polls 1107 (getCard1TapPauseMs ?s) [1500] 2107"
    by (simp add: phase_polls_def getter_defs boot_def timing_12V_defs)
  have p3: "phase_polls 2107 (getCard1ToHomeMs ?s) [3000] 3250"
    by (simp add: phase_polls_def getter_defs boot_def timing_12V_defs)
  from tap_visits_exact_sequence [OF h1 h2, of 7] h1 h2 p1 p2 p3 show ?thesis
    by blast
qed

subsection \<open>C4: calls during an operation\<close>

text \<open>
  C4. In every state with Operation other than Idle, each of \<open>tapCard1\<close>, \<open>tapCard2\<close> and
  \<open>resetToMiddle\<close> returns the state unchanged but for one diagnostic line written to
  Serial: Position, Operation, the drive state and both output pins keep their values, and
  nothing is published. The functions return no value, so there is no error return.
\<close>

theorem busy_calls_rejected:
  assumes "currentOperation s \<noteq> IDLE"
  shows "tapCard1 now s
           = s\<lparr>serial := serial s @ [''[DualCard] Cannot tap Card 1 - operation in progress'']\<rparr>
       \<and> tapCard2 now s
           = s\<lparr>serial := serial s @ [''[DualCard] Cannot tap Card 2 - operation in progress'']\<rparr>
       \<and> resetToMiddle now s
           = s\<lparr>serial := serial s @ [''[DualCard] Cannot reset - operation in progress'']\<rparr>
       \<and> (\<forall>f \<in> {tapCard1, tapCard2, resetToMiddle}.
            currentPosition (f now s) = currentPosition s
            \<and> currentOperation (f now s) = currentOperation s
            \<and> currentState (f now s) = currentState s
            \<and> IN1_PIN (f now s) = IN1_PIN s \<and> IN2_PIN (f now s) = IN2_PIN s
            \<and> mqtt (f now s) = mqtt s)"
  using assms by (simp add: tapCard1_def tapCard2_def resetToMiddle_def println_def)

theorem busy_calls_rejected_witness:
  "currentOperation (tapCard1 7 (boot\<lparr>currentPosition := MIDDLE\<rparr>)) \<noteq> IDLE
   \<and> tapCard2 9 (tapCard1 7 (boot\<lparr>currentPosition := MIDDLE\<rparr>))
       = (tapCard1 7 (boot\<lparr>currentPosition := MIDDLE\<rparr>))
           \<lparr>serial := serial (tapCard1 7 (boot\<lparr>currentPosition := MIDDLE\<rparr>))
                        @ [''[DualCard] Cannot tap Card 2 - operation in progress'']\<rparr>"
proof -
  have h: "currentOperation (tapCard1 7 (boot\<lparr>currentPosition := MIDDLE\<rparr>)) \<noteq> IDLE"
    by (simp add: tapCard1_starts(1) boot_def)
  from busy_calls_rejected [OF h, of 9] h show ?thesis by blast
qed

subsection \<open>C9: the combined state label\<close>

text \<open>
  C9. The label returned by \<open>getState\<close> is chosen by strict priority: the label of the
  dual-card Operation when one is active; otherwise the label of the outstanding timed
  operation; otherwise the label of the legacy tap state when that is not idle; otherwise
  the label of the basic drive state.
\<close>

theorem getState_priority:
  "(currentOperation s \<noteq> IDLE \<longrightarrow> getState s = getOperationString s)
   \<and> (currentOperation s = IDLE \<and> timedOperation s \<longrightarrow>
        getState s = (case timedOperationState s of
                        STATE_EXTENDING \<Rightarrow> ''timed_extending''
                      | STATE_RETRACTING \<Rightarrow> ''timed_retracting''
                      | STATE_IDLE \<Rightarrow> ''timed_operation''))
   \<and> (currentOperation s = IDLE \<and> \<not> timedOperation s \<and> tapState s \<noteq> TAP_IDLE \<longrightarrow>
        getState s = (case tapState s of
                        TAP_EXTENDING \<Rightarrow> ''tap_extending''
                      | TAP_PAUSE \<Rightarrow> ''tap_pausing''
                      | TAP_RETRACTING \<Rightarrow> ''tap_retracting''
                      | TAP_COMPLETE \<Rightarrow> ''tap_complete''
                      | TAP_IDLE \<Rightarrow> ''tapping''))
   \<and> (currentOperation s = IDLE \<and> \<not> timedOperation s \<and> tapState s = TAP_IDLE \<longrightarrow>
        getState s = (case currentState s of
                        STATE_EXTENDING \<Rightarrow> ''extending''
                      | STATE_RETRACTING \<Rightarrow> ''retracting''
                      | STATE_IDLE \<Rightarrow> ''idle''))"
  by (simp add: getState_def)

theorem getState_priority_witness:
  "getState (boot\<lparr>currentOperation := TAPPING_CARD1, timedOperation := True,
                  timedOperationState := STATE_EXTENDING, tapState := TAP_PAUSE,
                  currentState := STATE_RETRACTING\<rparr>) = ''tapping_card1''
   \<and> getState (boot\<lparr>timedOperation := True, timedOperationState := STATE_EXTENDING,
                  tapState := TAP_PAUSE, currentState := STATE_RETRACTING\<rparr>) = ''timed_extending''
   \<and> getState (boot\<lparr>tapState := TAP_PAUSE, currentState := STATE_RETRACTING\<rparr>) = ''tap_pausing''
   \<and> getState (boot\<lparr>currentState := STATE_RETRACTING\<rparr>) = ''retracting''"
  using
    getState_priority [of "boot\<lparr>currentOperation := TAPPING_CARD1, timedOperation := True,
                  timedOperationState := STATE_EXTENDING, tapState := TAP_PAUSE,
                  currentState := STATE_RETRACTING\<rparr>"]
    getState_priority [of "boot\<lparr>timedOperation := True, timedOperationState := STATE_EXTENDING,
                  tapState := TAP_PAUSE, currentState := STATE_RETRACTING\<rparr>"]
    getState_priority [of "boot\<lparr>tapState := TAP_PAUSE, currentState := STATE_RETRACTING\<rparr>"]
    getState_priority [of "boot\<lparr>currentState := STATE_RETRACTING\<rparr>"]
  by (simp add: boot_def getOperationString_def)

subsection \<open>C10: manual stop during a timed operation\<close>

lemma timed_operation_started:
  "timedOperation (extendForTime d t s) \<and> timedOperationState (extendForTime d t s) = STATE_EXTENDING
   \<and> operationStartTime (extendForTime d t s) = t \<and> operationDuration (extendForTime d t s) = d
   \<and> currentOperation (extendForTime d t s) = currentOperation s
   \<and> timedOperation (retractForTime d t s)
   \<and> timedOperationState (retractForTime d t s) = STATE_RETRACTING
   \<and> operationStartTime (retractForTime d t s) = t \<and> operationDuration (retractForTime d t s) = d
   \<and> currentOperation (retractForTime d t s) = currentOperation s"
  by (simp add: extendForTime_def retractForTime_def io_defs drive_defs Let_def)

text \<open>
  C10. In a state with Operation = Idle and a timed operation outstanding (the flag set, its
  direction Extending or Retracting as \<open>extendForTime\<close> and \<open>retractForTime\<close> leave it),
  \<open>manualStop\<close> stops the drive (drive state Idle, both pins low) but leaves the
  timed-operation flag, start, duration and direction as they were. Afterwards a call of
  \<open>updateTimedOperations\<close> before the original expiry changes nothing, and a call at or
  after it clears the flag and publishes \<open>idle\<close> and then \<open>extend_complete\<close> (respectively
  \<open>retract_complete\<close>).
\<close>

theorem manualStop_keeps_timed_operation:
  assumes "currentOperation s = IDLE" and "timedOperation s"
    and "timedOperationState s = STATE_EXTENDING \<or> timedOperationState s = STATE_RETRACTING"
  shows "currentState (manualStop now s) = STATE_IDLE
       \<and> \<not> IN1_PIN (manualStop now s) \<and> \<not> IN2_PIN (manualStop now s)
       \<and> timedOperation (manualStop now s)
       \<and> operationStartTime (manualStop now s) = operationStartTime s
       \<and> operationDuration (manualStop now s) = operationDuration s
       \<and> timedOperationState (manualStop now s) = timedOperationState s
       \<and> (\<forall>t. t - operationStartTime s < operationDuration s \<longrightarrow>
             updateTimedOperations t (manualStop now s) = manualStop now s)
       \<and> (\<forall>t. t - operationStartTime s \<ge> operationDuration s \<longrightarrow>
             \<not> timedOperation (updateTimedOperations t (manualStop now s))
             \<and> mqtt (updateTimedOperations t (manualStop now s))
                 = mqtt (manualStop now s)
                   @ [publishStatus ''idle'',
                      publishStatus (if timedOperationState s = STATE_EXTENDING
                                     then ''extend_complete'' else ''retract_complete'')])"
proof -
  let ?m = "manualStop now s"
  have keep: "currentState ?m = STATE_IDLE" "\<not> IN1_PIN ?m" "\<not> IN2_PIN ?m" "timedOperation ?m"
    "operationStartTime ?m = operationStartTime s" "operationDuration ?m = operationDuration s"
    "timedOperationState ?m = timedOperationState s"
    using assms(1,2) by (simp_all add: manualStop_def io_defs drive_defs Let_def)
  have early: "updateTimedOperations t ?m = ?m" if "t - operationStartTime s < operationDuration s"
    for t
    using that keep by (simp add: updateTimedOperations_def Let_def not_le [symmetric])
  have late: "\<not> timedOperation (updateTimedOperations t ?m)
             \<and> mqtt (updateTimedOperations t ?m)
                 = mqtt ?m
                   @ [publishStatus ''idle'',
                      publishStatus (if timedOperationState s = STATE_EXTENDING
                                     then ''extend_complete'' else ''retract_complete'')]"
    if "t - operationStartTime s \<ge> operationDuration s" for t
    using that keep assms(3)
    by (auto simp: updateTimedOperations_def io_defs drive_defs Let_def)
  from keep early late show ?thesis by blast
qed

theorem manualStop_keeps_timed_operation_witness:
  "currentOperation (extendForTime 1000 5 (init boot)) = IDLE
   \<and> timedOperation (extendForTime 1000 5 (init boot))
   \<and> timedOperationState (extendForTime 1000 5 (init boot)) = STATE_EXTENDING
   \<and> currentState (manualStop 300 (extendForTime 1000 5 (init boot))) = STATE_IDLE
   \<and> timedOperation (manualStop 300 (extendForTime 1000 5 (init boot)))
   \<and> mqtt (updateTimedOperations 1005 (manualStop 300 (extendForTime 1000 5 (init boot))))
       = mqtt (manualStop 300 (extendForTime 1000 5 (init boot)))
         @ [publishStatus ''idle'', publishStatus ''extend_complete'']"
proof -
  let ?s = "extendForTime 1000 5 (init boot)"
  have h1: "currentOperation ?s = IDLE"
    using timed_operation_started [of 1000 5 "init boot"]
    by (simp add: init_def io_defs drive_defs Let_def)
  have h2: "timedOperation ?s" and h3: "timedOperationState ?s = STATE_EXTENDING"
    and st: "operationStartTime ?s = 5" and du: "operationDuration ?s = 1000"
    using timed_operation_started [of 1000 5 "init boot"] by simp_all
  have h3': "timedOperationState ?s = STATE_EXTENDING \<or> timedOperationState ?s = STATE_RETRACTING"
    using h3 by simp
  have e: "operationDuration ?s \<le> 1005 - operationStartTime ?s"
    by (simp add: st du)
  from manualStop_keeps_timed_operation [OF h1 h2 h3', of 300] e h1 h2 h3 show ?thesis
    by simp
qed

subsection \<open>C8: capturing the current position as Middle\<close>

text \<open>
  C8 as stated does not hold: with a timed operation outstanding and Operation = Idle,
  \<open>captureCurrentAsMiddle\<close> leaves the actuator driving and the timed operation pending.
  Here \<open>extendForTime (1000)\<close> is called at clock 5 after \<open>init\<close>, and the capture at clock 300.
\<close>

theorem capture_leaves_timed_operation_running:
  "currentOperation (extendForTime 1000 5 (init boot)) = IDLE
   \<and> timedOperation (extendForTime 1000 5 (init boot))
   \<and> currentState (captureCurrentAsMiddle 300 (extendForTime 1000 5 (init boot))) = STATE_EXTENDING
   \<and> IN1_PIN (captureCurrentAsMiddle 300 (extendForTime 1000 5 (init boot)))
   \<and> timedOperation (captureCurrentAsMiddle 300 (extendForTime 1000 5 (init boot)))"
  by (simp add: captureCurrentAsMiddle_def extendForTime_def init_def boot_def io_defs drive_defs
      Let_def)

text \<open>
  C8, amended. From every state \<open>captureCurrentAsMiddle\<close> ends with Position = Middle and
  Operation = Idle. An active dual-card Operation (anything but Idle) is first
  force-completed with the actuator stopped. When Operation is already Idle the drive state
  and both pins are left as they are. In every case the timed operation (its flag, start
  time, duration and direction) and the legacy tap (its state and start time) are left
  untouched.
\<close>

theorem captureCurrentAsMiddle_effect:
  "currentPosition (captureCurrentAsMiddle now s) = MIDDLE
   \<and> currentOperation (captureCurrentAsMiddle now s) = IDLE
   \<and> timedOperation (captureCurrentAsMiddle now s) = timedOperation s
   \<and> operationStartTime (captureCurrentAsMiddle now s) = operationStartTime s
   \<and> operationDuration (captureCurrentAsMiddle now s) = operationDuration s
   \<and> timedOperationState (captureCurrentAsMiddle now s) = timedOperationState s
   \<and> tapState (captureCurrentAsMiddle now s) = tapState s
   \<and> tapStartTime (captureCurrentAsMiddle now s) = tapStartTime s
   \<and> (currentOperation s \<noteq> IDLE \<longrightarrow>
         currentState (captureCurrentAsMiddle now s) = STATE_IDLE
         \<and> \<not> IN1_PIN (captureCurrentAsMiddle now s) \<and> \<not> IN2_PIN (captureCurrentAsMiddle now s))
   \<and> (currentOperation s = IDLE \<longrightarrow>
         currentState (captureCurrentAsMiddle now s) = currentState s
         \<and> IN1_PIN (captureCurrentAsMiddle now s) = IN1_PIN s
         \<and> IN2_PIN (captureCurrentAsMiddle now s) = IN2_PIN s)"
  by (simp add: captureCurrentAsMiddle_def completeDualCardOperation_def io_defs drive_defs
      Let_def)

theorem captureCurrentAsMiddle_effect_witness:
  "currentOperation (manualExtend 5 (init boot)) \<noteq> IDLE
   \<and> currentState (manualExtend 5 (init boot)) = STATE_EXTENDING
   \<and> currentState (captureCurrentAsMiddle 300 (manualExtend 5 (init boot))) = STATE_IDLE
   \<and> currentPosition (captureCurrentAsMiddle 300 (manualExtend 5 (init boot))) = MIDDLE
   \<and> currentOperation (captureCurrentAsMiddle 300 (manualExtend 5 (init boot))) = IDLE
   \<and> currentOperation (init boot) = IDLE
   \<and> currentState (captureCurrentAsMiddle 300 (init boot)) = currentState (init boot)
   \<and> operationDuration (captureCurrentAsMiddle 300 (retractForTime 1000 5 (init boot))) = 1000
   \<and> operationStartTime (captureCurrentAsMiddle 300 (retractForTime 1000 5 (init boot))) = 5
   \<and> timedOperationState (captureCurrentAsMiddle 300 (retractForTime 1000 5 (init boot)))
       = STATE_RETRACTING"
proof -
  have h1: "currentOperation (manualExtend 5 (init boot)) \<noteq> IDLE"
    and h1': "currentState (manualExtend 5 (init boot)) = STATE_EXTENDING"
    by (simp_all add: manualExtend_def startTimingMeasurement_def init_def boot_def io_defs
        drive_defs Let_def)
  have h2: "currentOperation (init boot) = IDLE"
    by (simp add: init_def io_defs Let_def)
  from captureCurrentAsMiddle_effect [of 300 "manualExtend 5 (init boot)"]
    captureCurrentAsMiddle_effect [of 300 "init boot"]
    captureCurrentAsMiddle_effect [of 300 "retractForTime 1000 5 (init boot)"]
    timed_operation_started [of 1000 5 "init boot"] h1 h1' h2
  show ?thesis by simp
qed

subsection \<open>C3: the USB profile and the 12V profile\<close>

text \<open>
  C3 as stated does not hold: no single multiplier, written as a fraction \<open>p / q\<close>, turns
  every 12V duration into the USB duration of the same name. The tap pauses are 1000 ms in
  both profiles, while the approach to Card 1 goes from 1100 ms to 2530 ms.
\<close>

theorem usb_profile_no_single_multiplier:
  "\<not> (\<exists>p q::nat. q \<noteq> 0 \<and> (\<forall>d. q * unat (profile_USB d) = p * unat (profile_12V d)))"
proof
  assume "\<exists>p q::nat. q \<noteq> 0 \<and> (\<forall>d. q * unat (profile_USB d) = p * unat (profile_12V d))"
  then obtain p q :: nat where q: "q \<noteq> 0"
    and all: "\<And>d. q * unat (profile_USB d) = p * unat (profile_12V d)" by blast
  from all [of CARD1_TAP_PAUSE] have "q = p"
    by (simp add: timing_12V_defs timing_USB_defs)
  moreover from all [of CARD1_FROM_HOME] have "q * 2530 = p * 1100"
    by (simp add: timing_12V_defs timing_USB_defs)
  ultimately show False using q by simp
qed

text \<open>
  C3, amended. The two tap-pause durations of the USB profile equal those of the 12V
  profile; each of the other eight USB durations is the 12V duration of the same name
  multiplied by 2.3 and rounded to the nearest millisecond. The tables are constants: the
  lookups read them and the state only selects the row.
\<close>

theorem usb_profile_from_12V:
  "unat (profile_USB d) =
     (if is_pause d then unat (profile_12V d) else (23 * unat (profile_12V d) + 5) div 10)
   \<and> (is_pause d \<longrightarrow> unat (profile_USB d) = 1000)
   \<and> getCard1FromHomeMs s = (if is12VPower s then profile_12V else profile_USB) CARD1_FROM_HOME
   \<and> getCard1TapPauseMs s = (if is12VPower s then profile_12V else profile_USB) CARD1_TAP_PAUSE
   \<and> getCard1ToHomeMs s = (if is12VPower s then profile_12V else profile_USB) CARD1_TO_HOME
   \<and> getCard2FromHomeMs s = (if is12VPower s then profile_12V else profile_USB) CARD2_FROM_HOME
   \<and> getCard2TapPauseMs s = (if is12VPower s then profile_12V else profile_USB) CARD2_TAP_PAUSE
   \<and> getCard2ToHomeMs s = (if is12VPower s then profile_12V else profile_USB) CARD2_TO_HOME
   \<and> getHomeFromExtendedMs s
       = (if is12VPower s then profile_12V else profile_USB) HOME_FROM_EXTENDED
   \<and> getHomeFromRetractedMs s
       = (if is12VPower s then profile_12V else profile_USB) HOME_FROM_RETRACTED
   \<and> getExtendFullMs s = (if is12VPower s then profile_12V else profile_USB) EXTEND_FULL
   \<and> getRetractFullMs s = (if is12VPower s then profile_12V else profile_USB) RETRACT_FULL"
proof -
  have "unat (profile_USB d) =
     (if is_pause d then unat (profile_12V d) else (23 * unat (profile_12V d) + 5) div 10)"
    by (cases d) (simp_all add: is_pause_def timing_12V_defs timing_USB_defs)
  moreover have "is_pause d \<longrightarrow> unat (profile_USB d) = 1000"
    by (auto simp: is_pause_def timing_USB_defs)
  ultimately show ?thesis by (simp add: getter_defs)
qed

theorem usb_profile_from_12V_witness:
  "unat (profile_USB HOME_FROM_EXTENDED) = 3004 \<and> unat (profile_12V HOME_FROM_EXTENDED) = 1306
   \<and> unat (profile_USB CARD2_TAP_PAUSE) = unat (profile_12V CARD2_TAP_PAUSE)
   \<and> is_pause CARD2_TAP_PAUSE \<and> unat (profile_USB CARD2_TAP_PAUSE) = 1000
   \<and> getRetractFullMs (setPowerSourceUSB boot) = 6005"
  using usb_profile_from_12V [of HOME_FROM_EXTENDED boot]
    usb_profile_from_12V [of CARD2_TAP_PAUSE boot]
    usb_profile_from_12V [of RETRACT_FULL "setPowerSourceUSB boot"]
  by (simp add: is_pause_def timing_12V_defs timing_USB_defs setPowerSourceUSB_def println_def)

subsection \<open>C7: a tap requested away from Middle\<close>

lemma reset_step:
  assumes "currentOperation s = MOVING_TO_MIDDLE \<or> currentOperation s = IDLE"
  shows "currentOperation (updateDualCardOperations t s) = MOVING_TO_MIDDLE
       \<or> currentOperation (updateDualCardOperations t s) = IDLE"
  using assms
proof
  assume "currentOperation s = MOVING_TO_MIDDLE"
  then show ?thesis by (simp add: update_simps)
next
  assume "currentOperation s = IDLE"
  then show ?thesis by (simp add: update_IDLE)
qed

lemma reset_visited:
  "currentOperation s = MOVING_TO_MIDDLE \<or> currentOperation s = IDLE \<Longrightarrow>
   set (operations_visited s ts) \<subseteq> {MOVING_TO_MIDDLE, IDLE}"
proof (induction ts arbitrary: s)
  case Nil
  then show ?case by auto
next
  case (Cons t ts)
  from Cons.IH [OF reset_step [OF Cons.prems, of t]] Cons.prems show ?case
    by (auto simp: operations_visited_Cons)
qed

lemma resetToMiddle_starts:
  assumes "currentOperation s = IDLE" and "currentPosition s \<noteq> MIDDLE"
  shows "currentOperation (resetToMiddle now s) = MOVING_TO_MIDDLE"
    and "previousPosition (resetToMiddle now s) = currentPosition s"
    and "dualCardOperationStartTime (resetToMiddle now s) = now"
    and "is12VPower (resetToMiddle now s) = is12VPower s"
    and "currentState (resetToMiddle now s)
           = (if currentPosition s = CARD2 then STATE_EXTENDING else STATE_RETRACTING)"
  using assms
  by (simp_all add: resetToMiddle_def startDualCardOperation_def io_defs drive_defs Let_def)

text \<open>
  C7. In a state with Operation = Idle and Position other than Middle, \<open>tapCard1\<close> (and
  likewise \<open>tapCard2\<close>) writes its diagnostic lines and does exactly what \<open>resetToMiddle\<close> does:
  the operation started is MovingToMiddle, not a tap. Nothing remembers the request: however
  the polling continues afterwards, the operations visited are only MovingToMiddle and
  Idle, so no tap runs unless the caller asks again.
\<close>

theorem tap_away_from_middle_redirects:
  assumes "currentOperation s = IDLE" and "currentPosition s \<noteq> MIDDLE"
  shows
    "tapCard1 now s =
       resetToMiddle now
         (println ''[DualCard] Must be at middle position first - resetting''
           (println (''[DualCard] Power mode: '' @ getPowerSourceString s)
             (println (''[DualCard] Sequence: extend '' @ String_ul (getCard1FromHomeMs s)
                        @ ''ms '' @ arrow @ '' pause '' @ String_ul (getCard1TapPauseMs s)
                        @ ''ms '' @ arrow @ '' retract '' @ String_ul (getCard1ToHomeMs s)
                        @ ''ms'')
               (println ''[DualCard] Starting Card 1 tap - extend from middle'' s))))
   \<and> tapCard2 now s =
       resetToMiddle now
         (println ''[DualCard] Must be at middle position first - resetting''
           (println (''[DualCard] Power mode: '' @ getPowerSourceString s)
             (println (''[DualCard] Sequence: retract '' @ String_ul (getCard2FromHomeMs s)
                        @ ''ms '' @ arrow @ '' pause '' @ String_ul (getCard2TapPauseMs s)
                        @ ''ms '' @ arrow @ '' extend '' @ String_ul (getCard2ToHomeMs s)
                        @ ''ms'')
               (println ''[DualCard] Starting Card 2 tap - retract from middle'' s))))
   \<and> currentOperation (tapCard1 now s) = MOVING_TO_MIDDLE
   \<and> currentOperation (tapCard2 now s) = MOVING_TO_MIDDLE
   \<and> (\<forall>ts. set (operations_visited (tapCard1 now s) ts) \<subseteq> {MOVING_TO_MIDDLE, IDLE})
   \<and> (\<forall>ts. set (operations_visited (tapCard2 now s) ts) \<subseteq> {MOVING_TO_MIDDLE, IDLE})"
proof -
  have e1: "tapCard1 now s =
       resetToMiddle now
         (println ''[DualCard] Must be at middle position first - resetting''
           (println (''[DualCard] Power mode: '' @ getPowerSourceString s)
             (println (''[DualCard] Sequence: extend '' @ String_ul (getCard1FromHomeMs s)
                        @ ''ms '' @ arrow @ '' pause '' @ String_ul (getCard1TapPauseMs s)
                        @ ''ms '' @ arrow @ '' retract '' @ String_ul (getCard1ToHomeMs s)
                        @ ''ms'')
               (println ''[DualCard] Starting Card 1 tap - extend from middle'' s))))"
    using assms
    by (simp add: tapCard1_def println_def Let_def getter_defs getPowerSourceString_def)
  have e2: "tapCard2 now s =
       resetToMiddle now
         (println ''[DualCard] Must be at middle position first - resetting''
           (println (''[DualCard] Power mode: '' @ getPowerSourceString s)
             (println (''[DualCard] Sequence: retract '' @ String_ul (getCard2FromHomeMs s)
                        @ ''ms '' @ arrow @ '' pause '' @ String_ul (getCard2TapPauseMs s)
                        @ ''ms '' @ arrow @ '' extend '' @ String_ul (getCard2ToHomeMs s)
                        @ ''ms'')
               (println ''[DualCard] Starting Card 2 tap - retract from middle'' s))))"
    using assms
    by (simp add: tapCard2_def println_def Let_def getter_defs getPowerSourceString_def)
  have o1: "currentOperation (tapCard1 now s) = MOVING_TO_MIDDLE"
    unfolding e1 using assms by (intro resetToMiddle_starts(1)) (simp_all add: println_def)
  have o2: "currentOperation (tapCard2 now s) = MOVING_TO_MIDDLE"
    unfolding e2 using assms by (intro resetToMiddle_starts(1)) (simp_all add: println_def)
  have v1: "\<forall>ts. set (operations_visited (tapCard1 now s) ts) \<subseteq> {MOVING_TO_MIDDLE, IDLE}"
    using reset_visited [of "tapCard1 now s"] o1 by blast
  have v2: "\<forall>ts. set (operations_visited (tapCard2 now s) ts) \<subseteq> {MOVING_TO_MIDDLE, IDLE}"
    using reset_visited [of "tapCard2 now s"] o2 by blast
  show ?thesis
    by (rule conjI [OF e1 conjI [OF e2 conjI [OF o1 conjI [OF o2 conjI [OF v1 v2]]]]])
qed

theorem tap_away_from_middle_redirects_witness:
  "currentOperation (init boot) = IDLE \<and> currentPosition (init boot) \<noteq> MIDDLE
   \<and> currentOperation (tapCard1 40 (init boot)) = MOVING_TO_MIDDLE
   \<and> set (operations_visited (tapCard1 40 (init boot)) [3000, 5000])
       \<subseteq> {MOVING_TO_MIDDLE, IDLE}"
proof -
  have h1: "currentOperation (init boot) = IDLE"
    and h2: "currentPosition (init boot) \<noteq> MIDDLE"
    by (simp_all add: init_def io_defs Let_def)
  from tap_away_from_middle_redirects [OF h1 h2, of 40] h1 h2 show ?thesis
    by blast
qed

subsection \<open>C6: recovery from an unknown position\<close>

lemma wait_M2M_from_UNKNOWN:
  "currentOperation s = MOVING_TO_MIDDLE \<Longrightarrow> previousPosition s = UNKNOWN \<Longrightarrow>
   x - dualCardOperationStartTime s < getRetractFullMs s \<Longrightarrow>
   updateDualCardOperations x s = s"
  by (simp add: updateDualCardOperations_def isDualCardOperationTimedOut_def not_le [symmetric])

lemma fire_M2M_from_UNKNOWN:
  assumes "currentOperation s = MOVING_TO_MIDDLE" and "previousPosition s = UNKNOWN"
    and "x - dualCardOperationStartTime s \<ge> getRetractFullMs s"
  shows "currentOperation (updateDualCardOperations x s) = MOVING_TO_MIDDLE"
    and "previousPosition (updateDualCardOperations x s) = CARD2"
    and "dualCardOperationStartTime (updateDualCardOperations x s) = x"
    and "is12VPower (updateDualCardOperations x s) = is12VPower s"
    and "currentState (updateDualCardOperations x s) = STATE_EXTENDING"
    and "currentPosition (updateDualCardOperations x s) = currentPosition s"
  using assms by (simp_all add: update_simps)

text \<open>
  What the code does after \<open>resetToMiddle\<close> from an unknown position: the first phase lasts
  the full-retract duration; the second phase, entered with the previous position set to
  Card 2, is timed by the branch for a return from Card 2, that is by the Card-2-to-home
  duration. The branch that compares against the half-travel-from-retracted duration is
  never reached on this path.
\<close>

lemma reset_from_unknown_second_phase:
  assumes s: "currentOperation s = IDLE" "currentPosition s = UNKNOWN"
    and p1: "phase_polls t0 (getRetractFullMs s) a t1"
  shows "updateDualCardOperations x (final_state (resetToMiddle t0 s) (a @ [t1]))
           = final_state (resetToMiddle t0 s) (a @ [t1])
         \<longleftrightarrow> x - t1 < getCard2ToHomeMs s"
    and "x - t1 \<ge> getCard2ToHomeMs s \<Longrightarrow>
         currentOperation
           (updateDualCardOperations x (final_state (resetToMiddle t0 s) (a @ [t1]))) = IDLE
         \<and> currentPosition
           (updateDualCardOperations x (final_state (resetToMiddle t0 s) (a @ [t1]))) = MIDDLE"
proof -
  define s0 where "s0 = resetToMiddle t0 s"
  define s1 where "s1 = updateDualCardOperations t1 s0"
  have ne: "currentPosition s \<noteq> MIDDLE" using s(2) by simp
  note st0 = resetToMiddle_starts [OF s(1) ne, of t0, folded s0_def]
  have prev0: "previousPosition s0 = UNKNOWN" using st0(2) s(2) by simp
  have w0: "\<forall>x \<in> set a. updateDualCardOperations x s0 = s0"
    using p1 st0 prev0 by (auto simp: phase_polls_def getter_defs intro!: wait_M2M_from_UNKNOWN)
  have f0: "getRetractFullMs s0 \<le> t1 - dualCardOperationStartTime s0"
    using p1 st0 by (simp add: phase_polls_def getter_defs)
  note st1 = fire_M2M_from_UNKNOWN [OF st0(1) prev0 f0, folded s1_def]
  have fs: "final_state s0 (a @ [t1]) = s1"
    by (simp add: final_state_append run_waiting [OF w0] final_state_Cons s1_def)
  have g: "getCard2ToHomeMs s1 = getCard2ToHomeMs s"
    using st1(4) st0(4) by (simp add: getter_defs)
  show "updateDualCardOperations x (final_state (resetToMiddle t0 s) (a @ [t1]))
           = final_state (resetToMiddle t0 s) (a @ [t1])
         \<longleftrightarrow> x - t1 < getCard2ToHomeMs s"
  proof (cases "x - t1 < getCard2ToHomeMs s")
    case True
    then show ?thesis
      using wait_M2M_from_CARD2 [OF st1(1) st1(2), of x] st1(3) g
      by (simp add: fs [unfolded s0_def])
  next
    case False
    then have "getCard2ToHomeMs s1 \<le> x - dualCardOperationStartTime s1"
      using st1(3) g by simp
    from fire_M2M_from_CARD2(1) [OF st1(1) st1(2) this] st1(1) False show ?thesis
      by (auto simp: fs [unfolded s0_def])
  qed
  show "currentOperation
           (updateDualCardOperations x (final_state (resetToMiddle t0 s) (a @ [t1]))) = IDLE
         \<and> currentPosition
           (updateDualCardOperations x (final_state (resetToMiddle t0 s) (a @ [t1]))) = MIDDLE"
    if "x - t1 \<ge> getCard2ToHomeMs s"
  proof -
    from that have "getCard2ToHomeMs s1 \<le> x - dualCardOperationStartTime s1"
      using st1(3) g by simp
    from fire_M2M_from_CARD2 [OF st1(1) st1(2) this] show ?thesis
      by (simp add: fs [unfolded s0_def])
  qed
qed

text \<open>
  C6 at a concrete input: on the 12V profile, \<open>resetToMiddle\<close> is called at clock 10 with
  Position unknown. The poll at 2621 (full retract, 2611 ms) ends phase 1: the drive
  extends, the previous position is Card 2, the operation stays MovingToMiddle. The poll at
  3905 comes 1284 ms later, the half-travel-from-retracted duration: the claim has the
  drive stop there at Middle, but the operation is still MovingToMiddle, the drive still
  extending and the position still unknown. The run completes at the poll at 3921, 1300 ms
  (the Card-2-to-home duration) after phase 1 ended.
\<close>

theorem reset_from_unknown_overruns_half_travel:
  "currentOperation (init boot) = IDLE \<and> currentPosition (init boot) = UNKNOWN
   \<and> getRetractFullMs (init boot) = 2611 \<and> getHomeFromRetractedMs (init boot) = 1284
   \<and> getCard2ToHomeMs (init boot) = 1300
   \<and> currentOperation (final_state (resetToMiddle 10 (init boot)) [2621]) = MOVING_TO_MIDDLE
   \<and> previousPosition (final_state (resetToMiddle 10 (init boot)) [2621]) = CARD2
   \<and> currentState (final_state (resetToMiddle 10 (init boot)) [2621]) = STATE_EXTENDING
   \<and> dualCardOperationStartTime (final_state (resetToMiddle 10 (init boot)) [2621]) = 2621
   \<and> currentOperation (final_state (resetToMiddle 10 (init boot)) [2621, 3905])
       = MOVING_TO_MIDDLE
   \<and> currentState (final_state (resetToMiddle 10 (init boot)) [2621, 3905]) = STATE_EXTENDING
   \<and> currentPosition (final_state (resetToMiddle 10 (init boot)) [2621, 3905]) = UNKNOWN
   \<and> currentOperation (final_state (resetToMiddle 10 (init boot)) [2621, 3905, 3921]) = IDLE
   \<and> currentPosition (final_state (resetToMiddle 10 (init boot)) [2621, 3905, 3921]) = MIDDLE"
proof -
  let ?s = "init boot"
  have h: "currentOperation ?s = IDLE" "currentPosition ?s = UNKNOWN" "is12VPower ?s"
    by (simp_all add: init_def boot_def io_defs drive_defs Let_def)
  have g: "getRetractFullMs ?s = 2611" "getHomeFromRetractedMs ?s = 1284"
    "getCard2ToHomeMs ?s = 1300"
    using h(3) by (simp_all add: getter_defs timing_12V_defs)
  have p1: "phase_polls 10 (getRetractFullMs ?s) [] 2621"
    by (simp add: phase_polls_def g)
  define s1 where "s1 = final_state (resetToMiddle 10 ?s) [2621]"
  have ne: "currentPosition ?s \<noteq> MIDDLE" using h(2) by simp
  note st0 = resetToMiddle_starts [OF h(1) ne, of 10]
  have prev0: "previousPosition (resetToMiddle 10 ?s) = UNKNOWN" using st0(2) h(2) by simp
  have f0: "getRetractFullMs (resetToMiddle 10 ?s)
              \<le> 2621 - dualCardOperationStartTime (resetToMiddle 10 ?s)"
    using st0(3,4) h(3) by (simp add: getter_defs timing_12V_defs)
  have s1_eq: "s1 = updateDualCardOperations 2621 (resetToMiddle 10 ?s)"
    by (simp add: s1_def final_state_Cons)
  note st1 = fire_M2M_from_UNKNOWN [OF st0(1) prev0 f0, folded s1_eq]
  have pos1: "currentPosition s1 = UNKNOWN"
    using st1(6) h(2) by (simp add: resetToMiddle_def startDualCardOperation_def io_defs
        drive_defs Let_def h(1))
  have stay: "updateDualCardOperations 3905 s1 = s1"
    using reset_from_unknown_second_phase(1) [OF h(1,2) p1, of 3905]
    by (simp add: s1_def g)
  have fin: "currentOperation (updateDualCardOperations 3921 s1) = IDLE
         \<and> currentPosition (updateDualCardOperations 3921 s1) = MIDDLE"
    using reset_from_unknown_second_phase(2) [OF h(1,2) p1, of 3921]
    by (simp add: s1_def g)
  have f2: "final_state (resetToMiddle 10 ?s) [2621, 3905] = s1"
    using stay by (simp add: final_state_Cons s1_eq)
  have f3: "final_state (resetToMiddle 10 ?s) [2621, 3905, 3921]
              = updateDualCardOperations 3921 s1"
    using stay by (simp add: final_state_Cons s1_eq)
  show ?thesis
    unfolding f2 f3 s1_def [symmetric]
    using h(1,2) g st1 pos1 fin by simp
qed

subsection \<open>C5: the safety watchdog\<close>

text \<open>While any controlled operation is active the watchdog only clears its timer.\<close>

lemma watchdog_idle_during_operation:
  "isTapping s \<Longrightarrow> checkLimitSwitches now s = s\<lparr>moveStartTime := 0\<rparr>"
  by (simp add: checkLimitSwitches_def)

text \<open>With its timer running (a non-zero start time) the watchdog stops an uncontrolled
  drive exactly when more than 5000 ms have elapsed since that start time.\<close>

lemma watchdog_armed_poll:
  assumes "\<not> isTapping s"
    and "currentState s = STATE_EXTENDING \<or> currentState s = STATE_RETRACTING"
    and "moveStartTime s \<noteq> 0"
  shows "now - moveStartTime s > 5000 \<Longrightarrow>
           currentState (checkLimitSwitches now s) = STATE_IDLE
           \<and> \<not> IN1_PIN (checkLimitSwitches now s) \<and> \<not> IN2_PIN (checkLimitSwitches now s)
           \<and> moveStartTime (checkLimitSwitches now s) = 0
           \<and> \<not> isTapping (checkLimitSwitches now s)"
    and "\<not> now - moveStartTime s > 5000 \<Longrightarrow> checkLimitSwitches now s = s"
  using assms by (simp_all add: checkLimitSwitches_def isTapping_def io_defs drive_defs Let_def)

lemma watchdog_idle_drive:
  "\<not> isTapping s \<Longrightarrow> currentState s = STATE_IDLE \<Longrightarrow>
   currentState (checkLimitSwitches now s) = STATE_IDLE \<and> \<not> isTapping (checkLimitSwitches now s)"
  by (simp add: checkLimitSwitches_def isTapping_def)

text \<open>
  A run of watchdog polls over an uncontrolled drive: when the first poll reads a non-zero
  clock \<open>t0\<close> and the last one reads a clock more than 5000 ms later, the drive has been
  stopped by the end of the run.
\<close>

lemma watchdog_run_after_arming:
  assumes "\<not> isTapping s"
    and "(currentState s \<noteq> STATE_IDLE \<and> moveStartTime s = t0) \<or> currentState s = STATE_IDLE"
    and "t0 \<noteq> 0" and "tn - t0 > 5000"
  shows "currentState (run_watchdog s (mid @ [tn])) = STATE_IDLE"
  using assms(1,2)
proof (induction mid arbitrary: s)
  case Nil
  from Nil.prems(2) show ?case
  proof
    assume a: "currentState s \<noteq> STATE_IDLE \<and> moveStartTime s = t0"
    then have d: "currentState s = STATE_EXTENDING \<or> currentState s = STATE_RETRACTING"
      by (cases "currentState s") simp_all
    from watchdog_armed_poll(1) [OF Nil.prems(1) d, of tn] a assms(3,4) show ?thesis by simp
  next
    assume "currentState s = STATE_IDLE"
    with watchdog_idle_drive [OF Nil.prems(1), of tn] show ?thesis by simp
  qed
next
  case (Cons t mid)
  have "\<not> isTapping (checkLimitSwitches t s)
       \<and> ((currentState (checkLimitSwitches t s) \<noteq> STATE_IDLE
            \<and> moveStartTime (checkLimitSwitches t s) = t0)
          \<or> currentState (checkLimitSwitches t s) = STATE_IDLE)"
    using Cons.prems(2)
  proof
    assume a: "currentState s \<noteq> STATE_IDLE \<and> moveStartTime s = t0"
    then have d: "currentState s = STATE_EXTENDING \<or> currentState s = STATE_RETRACTING"
      by (cases "currentState s") simp_all
    have m: "moveStartTime s \<noteq> 0" using a assms(3) by simp
    show ?thesis
    proof (cases "t - moveStartTime s > 5000")
      case True
      from watchdog_armed_poll(1) [OF Cons.prems(1) d m True] show ?thesis by simp
    next
      case False
      from watchdog_armed_poll(2) [OF Cons.prems(1) d m False] Cons.prems(1) a
      show ?thesis by simp
    qed
  next
    assume "currentState s = STATE_IDLE"
    with watchdog_idle_drive [OF Cons.prems(1), of t] show ?thesis by simp
  qed
  then show ?case using Cons.IH [of "checkLimitSwitches t s"] by simp
qed

lemma watchdog_run_fires:
  assumes "\<not> isTapping s"
    and "currentState s = STATE_EXTENDING \<or> currentState s = STATE_RETRACTING"
    and "moveStartTime s = 0" and "t0 \<noteq> 0" and "tn - t0 > 5000"
  shows "currentState (run_watchdog s (t0 # mid @ [tn])) = STATE_IDLE"
proof -
  have c: "checkLimitSwitches t0 s = s\<lparr>moveStartTime := t0\<rparr>"
    using assms(1,2,3) by (simp add: checkLimitSwitches_def)
  have "currentState (run_watchdog (s\<lparr>moveStartTime := t0\<rparr>) (mid @ [tn])) = STATE_IDLE"
    using assms by (intro watchdog_run_after_arming [of _ t0]) (auto simp: isTapping_def)
  then show ?thesis by (simp add: c)
qed

text \<open>
  A poll that reads the clock value 0 cannot start the timer: the value it stores is the
  one that stands for a timer not started, so the next poll starts it afresh.
\<close>

lemma watchdog_clock_zero_poll:
  assumes "\<not> isTapping s"
    and "currentState s = STATE_EXTENDING \<or> currentState s = STATE_RETRACTING"
    and "moveStartTime s = 0"
  shows "checkLimitSwitches 0 s = s"
    and "checkLimitSwitches t (checkLimitSwitches 0 s) = s\<lparr>moveStartTime := t\<rparr>"
  using assms by (auto simp: checkLimitSwitches_def isTapping_def)

text \<open>
  C5 at a concrete input. After \<open>init\<close> the drive is started by a direct \<open>extend\<close>; no dual-card
  operation, timed operation or legacy tap is active. The watchdog is polled when the clock
  reads 0, 50 and 5001: the drive has run uncontrolled for more than the 5000 ms ceiling,
  yet it is still extending, because the first poll stored the clock value 0, which the
  second poll took for a timer not yet started. Polled one millisecond later each time, at
  1, 51 and 5002, the same drive is stopped.
\<close>

theorem watchdog_misses_clock_zero:
  "tapState (extend (init boot)) = TAP_IDLE \<and> \<not> timedOperation (extend (init boot))
   \<and> currentOperation (extend (init boot)) = IDLE
   \<and> currentState (extend (init boot)) = STATE_EXTENDING
   \<and> moveStartTime (extend (init boot)) = 0
   \<and> currentState (run_watchdog (extend (init boot)) [0, 50, 5001]) = STATE_EXTENDING
   \<and> IN1_PIN (run_watchdog (extend (init boot)) [0, 50, 5001])
   \<and> moveStartTime (run_watchdog (extend (init boot)) [0, 50, 5001]) = 50
   \<and> currentState (run_watchdog (extend (init boot)) [1, 51, 5002]) = STATE_IDLE
   \<and> \<not> IN1_PIN (run_watchdog (extend (init boot)) [1, 51, 5002])"
  by (simp add: checkLimitSwitches_def isTapping_def init_def boot_def io_defs drive_defs Let_def)

subsection \<open>C1: the return-to-middle duration and completed taps\<close>

lemma power_source_kept:
  "is12VPower (updateDualCardOperations t s) = is12VPower s"
  "is12VPower (resetToMiddle t s) = is12VPower s"
  "is12VPower (tapCard1 t s) = is12VPower s"
  "is12VPower (tapCard2 t s) = is12VPower s"
proof -
  show "is12VPower (updateDualCardOperations t s) = is12VPower s"
    by (cases "currentOperation s") (simp_all add: update_simps)
  show r: "is12VPower (resetToMiddle t s) = is12VPower s" for s
    by (simp add: resetToMiddle_def startDualCardOperation_def io_defs drive_defs Let_def)
  show "is12VPower (tapCard1 t s) = is12VPower s"
    by (simp add: tapCard1_def r startDualCardOperation_def io_defs drive_defs Let_def)
  show "is12VPower (tapCard2 t s) = is12VPower s"
    by (simp add: tapCard2_def r startDualCardOperation_def io_defs drive_defs Let_def)
qed

lemma run_calls_power_source: "is12VPower (run_calls s cs) = is12VPower s"
proof (induction cs arbitrary: s)
  case Nil
  then show ?case by simp
next
  case (Cons c cs)
  obtain k t where c: "c = (k, t)" by (cases c)
  have "is12VPower (do_call c s) = is12VPower s"
    unfolding c by (cases k) (simp_all add: power_source_kept)
  with Cons.IH [of "do_call c s"] show ?case by simp
qed

text \<open>
  C1 as stated does not hold: the controller keeps no drift accumulator. After \<open>init\<close> and
  \<open>captureCurrentAsMiddle\<close> (at clock 3) a Card 1 tap is started at clock 7 and polled at
  1107, 2107 and 3250: the tap completes, and the Card 1 return-to-middle lookup is 1100 ms
  before and after it, the nominal 12V value. So for no positive per-tap amount and
  positive cap is the lookup the nominal value minus the capped accumulator of one
  completed tap.
\<close>

theorem completed_tap_keeps_return_duration:
  "operations_visited (tapCard1 7 (captureCurrentAsMiddle 3 (init boot))) [1107, 2107, 3250]
     = [MOVING_TO_CARD1, TAPPING_CARD1, MOVING_TO_MIDDLE, IDLE]
   \<and> currentOperation
        (final_state (tapCard1 7 (captureCurrentAsMiddle 3 (init boot))) [1107, 2107, 3250])
       = IDLE
   \<and> CARD1_TO_HOME_12V_MS = 1100
   \<and> getCard1ToHomeMs (captureCurrentAsMiddle 3 (init boot)) = 1100
   \<and> getCard1ToHomeMs
        (final_state (tapCard1 7 (captureCurrentAsMiddle 3 (init boot))) [1107, 2107, 3250])
       = 1100
   \<and> \<not> (\<exists>amount cap :: int. 0 < amount \<and> 0 < cap
          \<and> uint (getCard1ToHomeMs
               (final_state (tapCard1 7 (captureCurrentAsMiddle 3 (init boot)))
                  [1107, 2107, 3250]))
            = max 0 (uint CARD1_TO_HOME_12V_MS - min (min (0 + amount) cap) cap))"
proof -
  let ?s = "captureCurrentAsMiddle 3 (init boot)"
  let ?f = "final_state (tapCard1 7 ?s) [1107, 2107, 3250]"
  have h: "currentPosition ?s = MIDDLE" "currentOperation ?s = IDLE" "is12VPower ?s"
    by (simp_all add: captureCurrentAsMiddle_def init_def boot_def io_defs drive_defs Let_def)
  have p1: "phase_polls 7 (getCard1FromHomeMs ?s) [] 1107"
    and p2: "phase_polls 1107 (getCard1TapPauseMs ?s) [] 2107"
    and p3: "phase_polls 2107 (getCard1ToHomeMs ?s) [] 3250"
    using h(3) by (simp_all add: phase_polls_def getter_defs timing_12V_defs)
  from tap1_completes [OF h(1,2) p1 p2 p3]
  have v: "operations_visited (tapCard1 7 ?s) [1107, 2107, 3250]
             = [MOVING_TO_CARD1, TAPPING_CARD1, MOVING_TO_MIDDLE, IDLE]"
    and o: "currentOperation ?f = IDLE"
    by simp_all
  have pw: "is12VPower ?f"
    using run_calls_power_source
      [of ?s "[(TapCard1, 7), (UpdateDualCardOperations, 1107),
               (UpdateDualCardOperations, 2107), (UpdateDualCardOperations, 3250)]"] h(3)
    by (simp add: final_state_Cons)
  have n: "CARD1_TO_HOME_12V_MS = 1100" by (simp add: timing_12V_defs)
  have g0: "getCard1ToHomeMs ?s = 1100" using h(3) by (simp add: getter_defs n)
  have g1: "getCard1ToHomeMs ?f = 1100" using pw by (simp add: getter_defs n)
  have no: "\<not> (\<exists>amount cap :: int. 0 < amount \<and> 0 < cap
          \<and> uint (getCard1ToHomeMs ?f)
            = max 0 (uint CARD1_TO_HOME_12V_MS - min (min (0 + amount) cap) cap))"
    unfolding g1 n by auto
  from v o n g0 g1 no show ?thesis by blast
qed

text \<open>
  C1, amended. The controller keeps no drift accumulator. For each card the lookup of the
  return-to-middle duration reads the power-source flag and nothing else: two states with
  the same flag give the same duration. After any history of \<open>tapCard1\<close>, \<open>tapCard2\<close>,
  \<open>resetToMiddle\<close> and \<open>updateDualCardOperations\<close> calls, with any clock values and so
  after any number of completed taps, the lookup still equals the nominal profile value of
  the selected power source, as before the history.
\<close>

theorem return_duration_is_nominal:
  "getCard1ToHomeMs (run_calls s cs)
     = (if is12VPower s then CARD1_TO_HOME_12V_MS else CARD1_TO_HOME_USB_MS)
   \<and> getCard2ToHomeMs (run_calls s cs)
     = (if is12VPower s then CARD2_TO_HOME_12V_MS else CARD2_TO_HOME_USB_MS)
   \<and> getCard1ToHomeMs (run_calls s cs) = getCard1ToHomeMs s
   \<and> getCard2ToHomeMs (run_calls s cs) = getCard2ToHomeMs s
   \<and> (is12VPower s' = is12VPower s \<longrightarrow>
         getCard1ToHomeMs s' = getCard1ToHomeMs s \<and> getCard2ToHomeMs s' = getCard2ToHomeMs s)"
  by (simp add: getter_defs run_calls_power_source)

theorem return_duration_is_nominal_witness:
  "getCard1ToHomeMs
     (run_calls (captureCurrentAsMiddle 3 (init boot))
        [(TapCard1, 7), (UpdateDualCardOperations, 1107), (UpdateDualCardOperations, 2107),
         (UpdateDualCardOperations, 3250), (TapCard1, 4000), (UpdateDualCardOperations, 5100),
         (UpdateDualCardOperations, 6100), (UpdateDualCardOperations, 7200)]) = 1100
   \<and> getCard2ToHomeMs
     (run_calls (setPowerSourceUSB (captureCurrentAsMiddle 3 (init boot)))
        [(TapCard2, 7), (UpdateDualCardOperations, 2997), (UpdateDualCardOperations, 3997),
         (UpdateDualCardOperations, 6987)]) = 2990
   \<and> is12VPower (manualExtend 9 (init boot)) = is12VPower (init boot)
   \<and> getCard1ToHomeMs (manualExtend 9 (init boot)) = getCard1ToHomeMs (init boot)"
proof -
  have h: "is12VPower (captureCurrentAsMiddle 3 (init boot))"
    "\<not> is12VPower (setPowerSourceUSB (captureCurrentAsMiddle 3 (init boot)))"
    "is12VPower (manualExtend 9 (init boot)) = is12VPower (init boot)"
    by (simp_all add: captureCurrentAsMiddle_def setPowerSourceUSB_def manualExtend_def
        startTimingMeasurement_def init_def boot_def io_defs drive_defs Let_def)
  from
    return_duration_is_nominal [of "captureCurrentAsMiddle 3 (init boot)"
      "[(TapCard1, 7), (UpdateDualCardOperations, 1107), (UpdateDualCardOperations, 2107),
        (UpdateDualCardOperations, 3250), (TapCard1, 4000), (UpdateDualCardOperations, 5100),
        (UpdateDualCardOperations, 6100), (UpdateDualCardOperations, 7200)]"
      "manualExtend 9 (init boot)"]
    return_duration_is_nominal [of "setPowerSourceUSB (captureCurrentAsMiddle 3 (init boot))"
      "[(TapCard2, 7), (UpdateDualCardOperations, 2997), (UpdateDualCardOperations, 3997),
        (UpdateDualCardOperations, 6987)]"
      "init boot"]
    return_duration_is_nominal [of "init boot" "[]" "manualExtend 9 (init boot)"]
    h
  show ?thesis
    by (simp add: timing_12V_defs timing_USB_defs)
qed

end
